theory Spec2Isabelle
  imports Complex_Main "HOL-Library.AList"
begin

section \<open>Data model\<close>

text \<open>
  The gesture engine of the repository, embedded from its TypeScript sources.
  JavaScript numbers that hold landmark coordinates are modelled as \<^typ>\<open>real\<close>
  (the detector delivers finite numbers; rounding is not modelled), times returned by
  \<^verbatim>\<open>Date.now()\<close> as \<^typ>\<open>nat\<close> (milliseconds), and the current
  time is an explicit argument \<open>now\<close> of every function that reads the clock.
  \<^verbatim>\<open>console.log\<close> calls have no effect on results and are left out.

  \<^verbatim>\<open>interface HandLandmark { x: number; y: number; z: number }\<close>: the fields are
  called \<open>px\<close>, \<open>py\<close>, \<open>pz\<close> here.
\<close>

record HandLandmark =
  px :: real
  py :: real
  pz :: real

record GestureDetection =
  gesture :: string
  confidence :: real
  timestamp :: nat

text \<open>An entry of \<^verbatim>\<open>multiHandedness\<close>: \<^verbatim>\<open>{ index, score, label }\<close>.\<close>

record Handedness =
  h_index :: nat
  h_score :: real
  h_label :: string

text \<open>Reading a property of \<^verbatim>\<open>undefined\<close> throws a \<^verbatim>\<open>TypeError\<close>.\<close>

datatype error = TypeError

section \<open>Geometric primitives (identical in every revision of the classifier)\<close>

definition calculateDistance :: "HandLandmark \<Rightarrow> HandLandmark \<Rightarrow> real" where
  "calculateDistance point1 point2 =
     sqrt ((px point1 - px point2)\<^sup>2 + (py point1 - py point2)\<^sup>2 + (pz point1 - pz point2)\<^sup>2)"

definition isFingerExtended :: "HandLandmark list \<Rightarrow> nat list \<Rightarrow> nat list \<Rightarrow> bool list" where
  "isFingerExtended landmarks fingerTips fingerPips =
     map (\<lambda>(tip, index). py (landmarks ! tip) < py (landmarks ! (fingerPips ! index)))
       (zip fingerTips [0..<length fingerTips])"

definition isThumbExtended :: "HandLandmark list \<Rightarrow> bool" where
  "isThumbExtended landmarks =
     (let wrist = landmarks ! 0; thumbMcp = landmarks ! 2; thumbTip = landmarks ! 4;
          distanceWristToMcp = calculateDistance wrist thumbMcp;
          distanceWristToTip = calculateDistance wrist thumbTip
      in distanceWristToTip > distanceWristToMcp)"

text \<open>
  \<^verbatim>\<open>fingersExtended.filter(Boolean).length + (thumbExtended ? 1 : 0)\<close>, with the
  index lists \<^verbatim>\<open>fingerTips = [8, 12, 16, 20]\<close> and \<^verbatim>\<open>fingerPips = [6, 10, 14, 18]\<close>
  of \<^verbatim>\<open>classifyGesture\<close>.
\<close>

definition fingersExtended :: "HandLandmark list \<Rightarrow> bool list" where
  "fingersExtended landmarks = isFingerExtended landmarks [8, 12, 16, 20] [6, 10, 14, 18]"

definition extendedCount :: "HandLandmark list \<Rightarrow> nat" where
  "extendedCount landmarks =
     length (filter (\<lambda>b. b) (fingersExtended landmarks)) + (if isThumbExtended landmarks then 1 else 0)"

section \<open>The classifier of src/utils/gestureClassifier.ts\<close>

text \<open>
  The argument of \<^verbatim>\<open>classifyGesture\<close> may be missing at run time
  (\<^verbatim>\<open>!landmarks\<close>): \<open>None\<close> is the missing list. The result \<open>None\<close> is
  \<^verbatim>\<open>null\<close>.
\<close>

definition classifyGesture_Pointing :: "nat \<Rightarrow> HandLandmark list \<Rightarrow> GestureDetection option" where
  "classifyGesture_Pointing now landmarks =
     (let indexTip = landmarks ! 8; indexPip = landmarks ! 6; wrist = landmarks ! 0;
          indexExtended = py indexTip < py indexPip + 0.1
      in if \<not> indexExtended then None
         else
           let middleExtended = py (landmarks ! 12) < py (landmarks ! 10) + 0.1;
               ringExtended = py (landmarks ! 16) < py (landmarks ! 14) + 0.1;
               pinkyExtended = py (landmarks ! 20) < py (landmarks ! 18) + 0.1;
               otherFingersMostlyCurled = (\<not> (middleExtended \<and> ringExtended \<and> pinkyExtended))
           in if \<not> otherFingersMostlyCurled then None
              else
                let indexLength = calculateDistance wrist indexTip
                in if indexLength < 0.03 \<or> indexLength > 0.5 then None
                   else Some \<lparr>gesture = ''Pointing'', confidence = 0.9, timestamp = now\<rparr>)"

definition classifyGesture_Victory :: "nat \<Rightarrow> HandLandmark list \<Rightarrow> GestureDetection option" where
  "classifyGesture_Victory now landmarks =
     (let indexTip = landmarks ! 8; middleTip = landmarks ! 12;
          indexPip = landmarks ! 6; middlePip = landmarks ! 10;
          wrist = landmarks ! 0; indexMcp = landmarks ! 5; middleMcp = landmarks ! 9;
          indexDist = calculateDistance indexTip indexPip;
          indexSegmentLen = calculateDistance indexMcp indexPip;
          indexExtended = indexDist > indexSegmentLen * 0.98;
          middleDist = calculateDistance middleTip middlePip;
          middleSegmentLen = calculateDistance middleMcp middlePip;
          middleExtended = middleDist > middleSegmentLen * 0.98
      in if \<not> indexExtended \<or> \<not> middleExtended then None
         else
           let wristBelow = py wrist > max (py indexTip) (py middleTip) - 0.02
           in if \<not> wristBelow then None
              else
                let palmFacing = (\<bar>pz indexTip\<bar> < 0.12 \<and> \<bar>pz middleTip\<bar> < 0.12)
                in if \<not> palmFacing then None
                   else
                     let vSpread = calculateDistance indexTip middleTip
                     in if vSpread < 0.008 then None
                        else
                          let indexLength = calculateDistance wrist indexTip;
                              middleLength = calculateDistance wrist middleTip
                          in if indexLength < 0.08 \<or> middleLength < 0.08 \<or> indexLength > 0.38 \<or> middleLength > 0.38
                             then None
                             else
                               let ivx = px indexTip - px indexMcp; ivy = py indexTip - py indexMcp;
                                   ivz = pz indexTip - pz indexMcp;
                                   mvx = px middleTip - px middleMcp; mvy = py middleTip - py middleMcp;
                                   mvz = pz middleTip - pz middleMcp;
                                   indexLen = sqrt (ivx\<^sup>2 + ivy\<^sup>2 + ivz\<^sup>2);
                                   middleLen = sqrt (mvx\<^sup>2 + mvy\<^sup>2 + mvz\<^sup>2)
                               in if indexLen = 0 \<or> middleLen = 0 then None
                                  else
                                    let dot = (ivx / indexLen) * (mvx / middleLen)
                                            + (ivy / indexLen) * (mvy / middleLen)
                                            + (ivz / indexLen) * (mvz / middleLen);
                                        angle = arccos (max (- 1) (min 1 dot)) * (180 / pi)
                                    in if angle < 45 \<or> angle > 125 then None
                                       else
                                         let xDiff = \<bar>px indexTip - px middleTip\<bar>
                                         in if xDiff < 0.005 then None
                                            else
                                              let isRightHand = px wrist > 0.5;
                                                  correctOrientation =
                                                    (if isRightHand then px indexTip < px middleTip
                                                     else px indexTip > px middleTip)
                                              in if \<not> correctOrientation then None
                                                 else Some \<lparr>gesture = ''Victory'', confidence = 0.95,
                                                             timestamp = now\<rparr>)"

definition classifyGesture :: "nat \<Rightarrow> HandLandmark list option \<Rightarrow> GestureDetection option" where
  "classifyGesture now lms =
     (case lms of
        None \<Rightarrow> None
      | Some landmarks \<Rightarrow>
          if length landmarks \<noteq> 21 then None
          else
            let fe = fingersExtended landmarks;
                thumbExtended = isThumbExtended landmarks;
                cnt = extendedCount landmarks
            in if thumbExtended \<and> cnt = 1
               then Some \<lparr>gesture = ''Thumbs-Up'', confidence = 0.9, timestamp = now\<rparr>
               else if fe ! 0 \<and> cnt = 1 then classifyGesture_Pointing now landmarks
               else if fe ! 0 \<and> fe ! 1 \<and> \<not> fe ! 2 \<and> \<not> fe ! 3 \<and> \<not> thumbExtended \<and> cnt = 2
               then classifyGesture_Victory now landmarks
               else if cnt = 5 \<and> px (landmarks ! 0) \<ge> 0.5
               then Some \<lparr>gesture = ''Open Palm'', confidence = 0.95, timestamp = now\<rparr>
               else if cnt = 5 \<and> px (landmarks ! 0) < 0.5
               then Some \<lparr>gesture = ''Stop'', confidence = 0.95, timestamp = now\<rparr>
               else if cnt \<ge> 4
               then Some \<lparr>gesture = ''Wave'', confidence = 0.8, timestamp = now\<rparr>
               else None)"

text \<open>
  \<^verbatim>\<open>leftPinkyOnly\<close> and \<^verbatim>\<open>rightPinkyOnly\<close> of \<^verbatim>\<open>classifyTwoHandGesture\<close>
  are the same expression on each hand.
\<close>

definition pinkyOnly :: "HandLandmark list \<Rightarrow> bool" where
  "pinkyOnly hand =
     (let fe = isFingerExtended hand [8, 12, 16, 20] [6, 10, 14, 18]
      in fe ! 3 \<and> \<not> fe ! 0 \<and> \<not> fe ! 1 \<and> \<not> fe ! 2)"

text \<open>
  The optional third argument \<^verbatim>\<open>handedness\<close> is \<open>None\<close> when it is not passed.
  \<^verbatim>\<open>handedness[0].label\<close> and \<^verbatim>\<open>handedness[1].label\<close> throw when the array
  has fewer than two entries, so the result is a sum.
\<close>

definition classifyTwoHandGesture ::
  "nat \<Rightarrow> HandLandmark list option \<Rightarrow> HandLandmark list option \<Rightarrow> Handedness list option
     \<Rightarrow> error + GestureDetection option" where
  "classifyTwoHandGesture now lh rh handedness =
     (case (lh, rh) of
        (Some leftHand, Some rightHand) \<Rightarrow>
          if length leftHand \<noteq> 21 \<or> length rightHand \<noteq> 21 then Inr None
          else
            let leftPinkyOnly = pinkyOnly leftHand; rightPinkyOnly = pinkyOnly rightHand
            in if \<not> leftPinkyOnly \<or> \<not> rightPinkyOnly then Inr None
               else
                 let leftWrist = leftHand ! 0; rightWrist = rightHand ! 0;
                     leftPinkyTip = leftHand ! 20; rightPinkyTip = rightHand ! 20;
                     pinkyDistance = calculateDistance leftPinkyTip rightPinkyTip;
                     wristDistance = calculateDistance leftWrist rightWrist;
                     heightDifference = \<bar>py leftWrist - py rightWrist\<bar>
                 in if pinkyDistance < 0.1 \<and> wristDistance < 0.2 \<and> heightDifference < 0.1
                    then Inr (Some \<lparr>gesture = ''Namaste'', confidence = 0.9, timestamp = now\<rparr>)
                    else
                      let wristCrossDistance = \<bar>px (leftHand ! 0) - px (rightHand ! 0)\<bar>;
                          verticalAlignment = (\<bar>py (leftHand ! 0) - py (rightHand ! 0)\<bar> < 0.15)
                      in if wristCrossDistance < 0.3 \<and> verticalAlignment \<and> handedness \<noteq> None
                         then (case handedness of
                                 Some (h0 # h1 # _) \<Rightarrow>
                                   if h_label h0 = ''Right'' \<and> h_label h1 = ''Left''
                                   then Inr (Some \<lparr>gesture = ''Cross Hands'', confidence = 0.85,
                                                    timestamp = now\<rparr>)
                                   else Inr None
                               | Some _ \<Rightarrow> Inl TypeError
                               | None \<Rightarrow> Inr None)
                         else Inr None
      | _ \<Rightarrow> Inr None)"

section \<open>The classifier revision with the robust fist test (src/unnamed/part_005)\<close>

text \<open>
  This revision of \<^verbatim>\<open>GestureClassifier\<close> is the one that offers the public helper
  \<^verbatim>\<open>distance\<close> which \<^verbatim>\<open>useHandDetection.ts\<close> calls. Its functions carry the
  suffix \<open>_part005\<close>; \<^verbatim>\<open>calculateDistance\<close>, \<^verbatim>\<open>isFingerExtended\<close> and
  \<^verbatim>\<open>isThumbExtended\<close> are the ones above.

  \<^verbatim>\<open>(b.z || 0) - (a.z || 0)\<close> is \<^verbatim>\<open>b.z - a.z\<close> for numbers, and
  \<^verbatim>\<open>Math.sqrt(...) || 1\<close> replaces a zero length by 1.
\<close>

definition computePalmNormalFrom :: "HandLandmark list \<Rightarrow> HandLandmark" where
  "computePalmNormalFrom landmarks =
     (let a = landmarks ! 0; b = landmarks ! 5; c = landmarks ! 17;
          abx = px b - px a; aby = py b - py a; abz = pz b - pz a;
          acx = px c - px a; acy = py c - py a; acz = pz c - pz a;
          nx = aby * acz - abz * acy;
          ny = abz * acx - abx * acz;
          nz = abx * acy - aby * acx;
          len0 = sqrt (nx * nx + ny * ny + nz * nz);
          len = (if len0 = 0 then 1 else len0)
      in \<lparr>px = nx / len, py = ny / len, pz = nz / len\<rparr>)"

text \<open>The fist block: \<^verbatim>\<open>tipIndicesAll\<close>, \<^verbatim>\<open>pipIndices\<close> and the four measures.\<close>

definition tipIndicesAll :: "nat list" where
  "tipIndicesAll = [4, 8, 12, 16, 20]"

definition pipIndices :: "nat list" where
  "pipIndices = [2, 6, 10, 14, 18]"

definition handWidth :: "HandLandmark list \<Rightarrow> real" where
  "handWidth landmarks =
     (let d = calculateDistance (landmarks ! 5) (landmarks ! 17) in if d = 0 then 1 else d)"

definition avgTipToPalm :: "HandLandmark list \<Rightarrow> real" where
  "avgTipToPalm landmarks =
     (let palm = landmarks ! 9;
          tipDistances = map (\<lambda>i. calculateDistance (landmarks ! i) palm) tipIndicesAll
      in foldl (\<lambda>s v. s + v) 0 tipDistances / real (length tipDistances))"

text \<open>
  The nested loop \<^verbatim>\<open>for i ... for j = i + 1 ...\<close> visits the index pairs in this
  order and keeps the running maximum, which starts at 0.
\<close>

definition tipPairs :: "(nat \<times> nat) list" where
  "tipPairs = concat (map (\<lambda>i. map (\<lambda>j. (i, j)) [i + 1..<length tipIndicesAll]) [0..<length tipIndicesAll])"

definition maxTipSpread :: "HandLandmark list \<Rightarrow> real" where
  "maxTipSpread landmarks =
     foldl (\<lambda>m (i, j).
              let d = calculateDistance (landmarks ! (tipIndicesAll ! i)) (landmarks ! (tipIndicesAll ! j))
              in if d > m then d else m)
       0 tipPairs"

definition curledCount :: "HandLandmark list \<Rightarrow> nat" where
  "curledCount landmarks =
     length (filter (\<lambda>k. py (landmarks ! (tipIndicesAll ! k)) \<ge> py (landmarks ! (pipIndices ! k)) - 0.01)
               [0..<length tipIndicesAll])"

definition classifyGesture_part005 :: "nat \<Rightarrow> HandLandmark list option \<Rightarrow> GestureDetection option" where
  "classifyGesture_part005 now lms =
     (case lms of
        None \<Rightarrow> None
      | Some landmarks \<Rightarrow>
          if length landmarks \<noteq> 21 then None
          else
            let fe = fingersExtended landmarks;
                thumbExtended = isThumbExtended landmarks;
                cnt = extendedCount landmarks;
                palmNormal = computePalmNormalFrom landmarks;
                avgTipToPalmNorm = avgTipToPalm landmarks / handWidth landmarks;
                maxTipSpreadNorm = maxTipSpread landmarks / handWidth landmarks
            in if curledCount landmarks \<ge> 4 \<and> avgTipToPalmNorm < 0.6 \<and> maxTipSpreadNorm < 0.45
               then Some \<lparr>gesture = ''Fist'', confidence = 0.96, timestamp = now\<rparr>
               else if thumbExtended \<and> cnt = 1
               then Some \<lparr>gesture = ''Thumbs-Up'', confidence = 0.9, timestamp = now\<rparr>
               else if fe ! 0 \<and> cnt = 1
               then Some \<lparr>gesture = ''Pointing'', confidence = 0.9, timestamp = now\<rparr>
               else if fe ! 0 \<and> fe ! 1 \<and> cnt = 2
               then Some \<lparr>gesture = ''Victory'', confidence = 0.9, timestamp = now\<rparr>
               else if cnt = 5
               then (if pz palmNormal < - 0.3
                     then Some \<lparr>gesture = ''Backhand'', confidence = 0.9, timestamp = now\<rparr>
                     else Some \<lparr>gesture = ''Open Palm'', confidence = 0.95, timestamp = now\<rparr>)
               else if cnt \<ge> 4
               then Some \<lparr>gesture = ''Wave'', confidence = 0.8, timestamp = now\<rparr>
               else None)"

definition classifyTwoHandGesture_part005 ::
  "nat \<Rightarrow> HandLandmark list option \<Rightarrow> HandLandmark list option \<Rightarrow> GestureDetection option" where
  "classifyTwoHandGesture_part005 now lh rh =
     (case (lh, rh) of
        (Some leftHand, Some rightHand) \<Rightarrow>
          if length leftHand \<noteq> 21 \<or> length rightHand \<noteq> 21 then None
          else
            let leftPalm = leftHand ! 9; rightPalm = rightHand ! 9;
                palmDistance = calculateDistance leftPalm rightPalm
            in if palmDistance < 0.095
               then Some \<lparr>gesture = ''Clap'', confidence = 0.92, timestamp = now\<rparr>
               else
                 let leftWrist = leftHand ! 0; rightWrist = rightHand ! 0;
                     leftMiddleTip = leftHand ! 12; rightMiddleTip = rightHand ! 12;
                     wristDistance = calculateDistance leftWrist rightWrist;
                     tipDistance = calculateDistance leftMiddleTip rightMiddleTip;
                     leftNormal = computePalmNormalFrom leftHand;
                     rightNormal = computePalmNormalFrom rightHand;
                     normalsDot = px leftNormal * px rightNormal + py leftNormal * py rightNormal
                                + pz leftNormal * pz rightNormal
                 in if palmDistance < 0.12 \<and> wristDistance < 0.14 \<and> tipDistance < 0.06 \<and> normalsDot < - 0.2
                    then Some \<lparr>gesture = ''Namaste'', confidence = 0.96, timestamp = now\<rparr>
                    else if px (leftHand ! 0) > px (rightHand ! 0)
                    then Some \<lparr>gesture = ''Cross Hands'', confidence = 0.88, timestamp = now\<rparr>
                    else
                      let leftHandRaised = py (leftHand ! 0) > py (leftHand ! 9);
                          rightHandRaised = py (rightHand ! 0) > py (rightHand ! 9)
                      in if leftHandRaised \<and> rightHandRaised
                         then Some \<lparr>gesture = ''Raise Both Hands'', confidence = 0.8, timestamp = now\<rparr>
                         else None
      | _ \<Rightarrow> None)"

text \<open>
  The public helper \<^verbatim>\<open>distance(a, b)\<close> takes points whose \<^verbatim>\<open>z\<close> is optional
  (\<^verbatim>\<open>{ x: number; y: number; z?: number }\<close>), casts them to \<^verbatim>\<open>HandLandmark\<close>
  without filling in a missing \<^verbatim>\<open>z\<close>, and calls \<^verbatim>\<open>calculateDistance\<close>. When a
  \<^verbatim>\<open>z\<close> is missing, \<^verbatim>\<open>p1.z - p2.z\<close> is \<^verbatim>\<open>NaN\<close>, and so are its square, the
  sum and the square root. A JavaScript number that may be \<^verbatim>\<open>NaN\<close> is a
  \<^typ>\<open>real option\<close>, \<open>None\<close> being \<^verbatim>\<open>NaN\<close>; every comparison with
  \<^verbatim>\<open>NaN\<close> is false.
\<close>

record OptZPoint =
  ox :: real
  oy :: real
  oz :: "real option"

definition distance :: "OptZPoint \<Rightarrow> OptZPoint \<Rightarrow> real option" where
  "distance a b =
     (case (oz a, oz b) of
        (Some za, Some zb) \<Rightarrow>
          Some (calculateDistance \<lparr>px = ox a, py = oy a, pz = za\<rparr> \<lparr>px = ox b, py = oy b, pz = zb\<rparr>)
      | _ \<Rightarrow> None)"

definition num_sub :: "real option \<Rightarrow> real option \<Rightarrow> real option" where
  "num_sub a b = (case (a, b) of (Some u, Some v) \<Rightarrow> Some (u - v) | _ \<Rightarrow> None)"

definition num_gt :: "real option \<Rightarrow> real \<Rightarrow> bool" where
  "num_gt a c = (case a of Some u \<Rightarrow> u > c | None \<Rightarrow> False)"

definition num_lt :: "real option \<Rightarrow> real \<Rightarrow> bool" where
  "num_lt a c = (case a of Some u \<Rightarrow> u < c | None \<Rightarrow> False)"

section \<open>The frame processor (src/hooks/useHandDetection.ts)\<close>

subsection \<open>State\<close>

text \<open>
  A history sample \<^verbatim>\<open>{ ts, wrist: { x, y }, palmCenter: { x, y } }\<close>. The two-dimensional
  points carry no \<^verbatim>\<open>z\<close>.
\<close>

record XY =
  cx :: real
  cy :: real

record Sample =
  s_ts :: nat
  s_wrist :: XY
  s_palmCenter :: XY

record HandResults =
  multiHandLandmarks :: "HandLandmark list list option"
  multiHandedness :: "Handedness list option"

text \<open>
  The two delays of the debounce block: 150 ms and 1800 ms in
  \<^verbatim>\<open>src/hooks/useHandDetection.ts\<close>, 200 ms and 2000 ms in the older revision of the hook
  (\<^verbatim>\<open>src/unnamed/part_001\<close>), whose debounce block is otherwise the same.
\<close>

record Config =
  stabilityMs :: nat
  cooldownMs :: nat

definition useHandDetection_config :: Config where
  "useHandDetection_config = \<lparr>stabilityMs = 150, cooldownMs = 1800\<rparr>"

definition part001_config :: Config where
  "part001_config = \<lparr>stabilityMs = 200, cooldownMs = 2000\<rparr>"

text \<open>
  The refs of the hook and the timers it has pending.
  \<^item> \<open>lastGestureRef\<close>: the label whose repetition is suppressed (the empty string at the
    start).
  \<^item> \<open>gestureTimeoutRef\<close>: the pending stability timer, with the time at which it is due and
    the detection its callback has captured; \<open>None\<close> when it has fired or was never set
    (\<^verbatim>\<open>clearTimeout\<close> of a timer that has fired does nothing).
  \<^item> \<open>resetTimers\<close>: the due times of the pending inner timers that empty
    \<^verbatim>\<open>lastGestureRef.current\<close>, in creation order. They all have the same delay, so
    this is also the order in which they are due. Nothing ever clears them.
  \<^item> \<open>historyRef\<close>: label to samples.
  \<^item> \<open>lastAudioClapRef\<close>: time of the last acoustic transient, 0 when there was none.
  \<^item> \<open>audioClapRef\<close>: whether an audio detector is attached (the ref is not null). The
    detector is a module of its own (\<^verbatim>\<open>utils/audioClapDetector\<close>); the frame processor
    reads only this flag and \<open>lastAudioClapRef\<close>.
  \<^item> \<open>emitted\<close>: the calls of \<^verbatim>\<open>onGestureDetected\<close> so far, each with the time of the
    call.
\<close>

record Engine =
  lastGestureRef :: string
  gestureTimeoutRef :: "(nat \<times> GestureDetection) option"
  resetTimers :: "nat list"
  historyRef :: "string \<rightharpoonup> Sample list"
  lastAudioClapRef :: nat
  audioClapRef :: bool
  emitted :: "(nat \<times> GestureDetection) list"

definition initEngine :: "bool \<Rightarrow> Engine" where
  "initEngine audio =
     \<lparr>lastGestureRef = [], gestureTimeoutRef = None, resetTimers = [], historyRef = Map.empty,
      lastAudioClapRef = 0, audioClapRef = audio, emitted = []\<rparr>"

subsection \<open>Pairing landmarks with labels\<close>

text \<open>The decimal digits of \<^verbatim>\<open>idx\<close> in the template string \<^verbatim>\<open>`Hand${idx}`\<close>.\<close>

function showNat :: "nat \<Rightarrow> string" where
  "showNat n = (if n < 10 then [char_of (48 + n)] else showNat (n div 10) @ [char_of (48 + n mod 10)])"
  by pat_completeness auto
termination
  by (relation "measure (\<lambda>n. n)") auto

declare showNat.simps [simp del]

definition handLabel :: "Handedness \<Rightarrow> nat \<Rightarrow> string" where
  "handLabel h idx = (if h_label h \<noteq> [] then h_label h else ''Hand'' @ showNat idx)"

text \<open>
  \<^verbatim>\<open>handsByLabel\<close> is an object used as a dictionary: assigning to a key that is present
  replaces its value in place, a new key goes last, and \<^verbatim>\<open>Object.entries\<close> and
  \<^verbatim>\<open>Object.keys\<close> enumerate in that order. This is \<^const>\<open>AList.update\<close> on an
  association list. (Labels are taken to be ordinary keys such as \<^verbatim>\<open>Left\<close>,
  \<^verbatim>\<open>Right\<close> and \<^verbatim>\<open>Hand0\<close>: JavaScript would enumerate keys that are array indices
  first, and keys inherited from \<^verbatim>\<open>Object.prototype\<close> are not modelled.)
\<close>

definition handsByLabelOf ::
  "HandLandmark list list \<Rightarrow> Handedness list option \<Rightarrow> (string \<times> HandLandmark list) list" where
  "handsByLabelOf lms hds =
     (let byIndex = foldl (\<lambda>acc (lm, idx). AList.update (''Hand'' @ showNat idx) lm acc) []
                      (zip lms [0..<length lms])
      in case hds of
           None \<Rightarrow> byIndex
         | Some hs \<Rightarrow>
             if length lms = length hs
             then foldl (\<lambda>acc (h, idx). AList.update (handLabel h idx) (lms ! idx) acc) []
                    (zip hs [0..<length hs])
             else byIndex)"

subsection \<open>Histories\<close>

text \<open>
  \<^verbatim>\<open>palmCenter\<close> reads \<^verbatim>\<open>lm[5]\<close>, \<^verbatim>\<open>lm[9]\<close>, \<^verbatim>\<open>lm[13]\<close> and
  \<^verbatim>\<open>lm[17]\<close>; \<^verbatim>\<open>p.x\<close> throws where the entry is missing.
\<close>

definition palmCenter :: "HandLandmark list \<Rightarrow> error + XY" where
  "palmCenter lm =
     (if length lm \<le> 17 then Inl TypeError
      else
        let pts = map (\<lambda>i. lm ! i) [5, 9, 13, 17];
            avgX = foldl (\<lambda>s p. s + px p) 0 pts / real (length pts);
            avgY = foldl (\<lambda>s p. s + py p) 0 pts / real (length pts)
        in Inr \<lparr>cx = avgX, cy = avgY\<rparr>)"

definition histOf :: "(string \<rightharpoonup> Sample list) \<Rightarrow> string \<Rightarrow> Sample list" where
  "histOf h label = (case h label of None \<Rightarrow> [] | Some samples \<Rightarrow> samples)"

text \<open>One iteration of the \<^verbatim>\<open>forEach\<close> that updates the histories: push, then shift
  when the length exceeds 30.\<close>

definition pushSample :: "Sample \<Rightarrow> Sample list \<Rightarrow> Sample list" where
  "pushSample smp samples = (let pushed = samples @ [smp] in if length pushed > 30 then tl pushed else pushed)"

text \<open>
  The loop stops at the first hand for which \<^verbatim>\<open>lm[0].x\<close> or \<^verbatim>\<open>palmCenter(lm)\<close>
  throws; the histories written before that stay written.
\<close>

fun updateHistories ::
  "nat \<Rightarrow> (string \<times> HandLandmark list) list \<Rightarrow> (string \<rightharpoonup> Sample list)
     \<Rightarrow> (string \<rightharpoonup> Sample list) \<times> error option" where
  "updateHistories now [] h = (h, None)"
| "updateHistories now ((label, lm) # rest) h =
     (if lm = [] then (h, Some TypeError)
      else
        case palmCenter lm of
          Inl e \<Rightarrow> (h, Some e)
        | Inr palm \<Rightarrow>
            let wrist = \<lparr>cx = px (lm ! 0), cy = py (lm ! 0)\<rparr>
            in updateHistories now rest
                 (h(label \<mapsto> pushSample \<lparr>s_ts = now, s_wrist = wrist, s_palmCenter = palm\<rparr> (histOf h label))))"

subsection \<open>Two-hand rules\<close>

text \<open>The casts \<^verbatim>\<open>aPalm as any\<close> and \<^verbatim>\<open>leftWrist as any\<close> at the calls of
  \<^verbatim>\<open>GestureClassifier.distance\<close>.\<close>

definition xyPoint :: "XY \<Rightarrow> OptZPoint" where
  "xyPoint p = \<lparr>ox = cx p, oy = cy p, oz = None\<rparr>"

definition lmPoint :: "HandLandmark \<Rightarrow> OptZPoint" where
  "lmPoint p = \<lparr>ox = px p, oy = py p, oz = Some (pz p)\<rparr>"

definition prevPalm :: "Sample list \<Rightarrow> XY option" where
  "prevPalm ah = (if length ah \<ge> 5 then Some (s_palmCenter (ah ! (length ah - 5))) else None)"

definition clapRule :: "nat \<Rightarrow> Engine \<Rightarrow> Sample list \<Rightarrow> Sample list \<Rightarrow> real option \<Rightarrow> GestureDetection option" where
  "clapRule now s ah bh palmDist =
     (case (prevPalm ah, prevPalm bh) of
        (Some aPrev, Some bPrev) \<Rightarrow>
          let prevDist = distance (xyPoint aPrev) (xyPoint bPrev)
          in if num_gt (num_sub prevDist palmDist) 0.12 \<and> num_lt palmDist 0.12
             then
               let audioConfirm = (lastAudioClapRef s \<noteq> 0 \<and> int now - int (lastAudioClapRef s) < 800)
               in if audioConfirm \<or> \<not> audioClapRef s
                  then Some \<lparr>gesture = ''Clap'', confidence = 0.97, timestamp = now\<rparr>
                  else None
             else None
      | _ \<Rightarrow> None)"

definition namasteRule :: "nat \<Rightarrow> HandLandmark list \<Rightarrow> HandLandmark list \<Rightarrow> real option \<Rightarrow> GestureDetection option" where
  "namasteRule now a b palmDist =
     (let leftWrist = a ! 0; rightWrist = b ! 0; leftMid = a ! 12; rightMid = b ! 12;
          wristDist = distance (lmPoint leftWrist) (lmPoint rightWrist);
          tipDist = distance (lmPoint leftMid) (lmPoint rightMid)
      in if num_lt palmDist 0.14 \<and> num_lt wristDist 0.18 \<and> num_lt tipDist 0.08
         then Some \<lparr>gesture = ''Namaste'', confidence = 0.95, timestamp = now\<rparr>
         else None)"

definition crossRule :: "nat \<Rightarrow> HandLandmark list \<Rightarrow> HandLandmark list \<Rightarrow> GestureDetection option" where
  "crossRule now a b =
     (if px (a ! 0) > px (b ! 0) + 0.02
      then Some \<lparr>gesture = ''Cross Hands'', confidence = 0.9, timestamp = now\<rparr>
      else None)"

definition raiseBothRule :: "nat \<Rightarrow> HandLandmark list \<Rightarrow> HandLandmark list \<Rightarrow> GestureDetection option" where
  "raiseBothRule now a b =
     (let aRaised = py (a ! 0) < py (a ! 9) - 0.02;
          bRaised = py (b ! 0) < py (b ! 9) - 0.02
      in if aRaised \<and> bRaised
         then Some \<lparr>gesture = ''Raise Both Hands'', confidence = 0.9, timestamp = now\<rparr>
         else None)"

text \<open>
  The block \<^verbatim>\<open>if (labels.length === 2) { ... }\<close>: each later rule runs only while
  \<^verbatim>\<open>detectedGesture\<close> is still null.
\<close>

definition twoHandGesture ::
  "nat \<Rightarrow> Engine \<Rightarrow> string \<Rightarrow> HandLandmark list \<Rightarrow> string \<Rightarrow> HandLandmark list
     \<Rightarrow> error + GestureDetection option" where
  "twoHandGesture now s la a lb b =
     (case palmCenter a of
        Inl e \<Rightarrow> Inl e
      | Inr aPalm \<Rightarrow>
          (case palmCenter b of
             Inl e \<Rightarrow> Inl e
           | Inr bPalm \<Rightarrow>
               let palmDist = distance (xyPoint aPalm) (xyPoint bPalm);
                   ah = histOf (historyRef s) la;
                   bh = histOf (historyRef s) lb
               in Inr (case clapRule now s ah bh palmDist of
                         Some g \<Rightarrow> Some g
                       | None \<Rightarrow>
                           (case namasteRule now a b palmDist of
                              Some g \<Rightarrow> Some g
                            | None \<Rightarrow>
                                (case crossRule now a b of
                                   Some g \<Rightarrow> Some g
                                 | None \<Rightarrow> raiseBothRule now a b)))))"

subsection \<open>Single-hand rules\<close>

definition reversals :: "real list \<Rightarrow> nat" where
  "reversals xs =
     length (filter (\<lambda>i. (xs ! i - xs ! (i - 1)) * (xs ! (i - 1) - xs ! (i - 2)) < 0) [2..<length xs])"

definition amplitude :: "real list \<Rightarrow> real" where
  "amplitude xs = (if xs = [] then 0 else fold max (tl xs) (hd xs) - fold min (tl xs) (hd xs))"

definition sustainedHigh :: "Sample list \<Rightarrow> bool" where
  "sustainedHigh hist =
     (let recent = drop (length hist - 6) hist
      in length recent \<ge> 4 \<and> list_all (\<lambda>h. cy (s_wrist h) < 0.38) recent)"

text \<open>
  The body of the loop \<^verbatim>\<open>for (const [label, lm] of Object.entries(handsByLabel))\<close> for
  one hand: the candidate this hand yields, or \<open>None\<close> when the loop goes on to the next
  hand.
\<close>

definition singleHandGesture :: "nat \<Rightarrow> Sample list \<Rightarrow> HandLandmark list \<Rightarrow> GestureDetection option" where
  "singleHandGesture now hist lm =
     (case classifyGesture_part005 now (Some lm) of
        None \<Rightarrow> None
      | Some staticGuess \<Rightarrow>
          if gesture staticGuess = ''Open Palm''
          then
            let xs = map (\<lambda>h. cx (s_wrist h)) hist
            in if reversals xs \<ge> 2 \<and> amplitude xs > 0.06
               then Some \<lparr>gesture = ''Wave'', confidence = 0.92, timestamp = now\<rparr>
               else if sustainedHigh hist
               then Some \<lparr>gesture = ''Raise Hand'', confidence = 0.9, timestamp = now\<rparr>
               else Some staticGuess
          else Some staticGuess)"

fun singleHandLoop ::
  "nat \<Rightarrow> (string \<rightharpoonup> Sample list) \<Rightarrow> (string \<times> HandLandmark list) list \<Rightarrow> GestureDetection option" where
  "singleHandLoop now h [] = None"
| "singleHandLoop now h ((label, lm) # rest) =
     (case singleHandGesture now (histOf h label) lm of
        Some g \<Rightarrow> Some g
      | None \<Rightarrow> singleHandLoop now h rest)"

text \<open>The value of \<^verbatim>\<open>detectedGesture\<close> when the debounce block is reached.\<close>

definition detectGesture ::
  "nat \<Rightarrow> (string \<times> HandLandmark list) list \<Rightarrow> Engine \<Rightarrow> error + GestureDetection option" where
  "detectGesture now handsByLabel s =
     (case (case handsByLabel of
              [(la, a), (lb, b)] \<Rightarrow> twoHandGesture now s la a lb b
            | _ \<Rightarrow> Inr None) of
        Inl e \<Rightarrow> Inl e
      | Inr (Some g) \<Rightarrow> Inr (Some g)
      | Inr None \<Rightarrow> Inr (singleHandLoop now (historyRef s) handsByLabel))"

subsection \<open>Debounce and timers\<close>

text \<open>
  The block \<^verbatim>\<open>if (detectedGesture && detectedGesture.gesture !== lastGestureRef.current)\<close>:
  any pending stability timer is cleared and a new one is set, whose callback captures
  this frame's detection.
\<close>

definition debounce :: "Config \<Rightarrow> nat \<Rightarrow> GestureDetection option \<Rightarrow> Engine \<Rightarrow> Engine" where
  "debounce c now detectedGesture s =
     (case detectedGesture of
        None \<Rightarrow> s
      | Some g \<Rightarrow>
          if gesture g \<noteq> lastGestureRef s
          then s\<lparr>gestureTimeoutRef := Some (now + stabilityMs c, g)\<rparr>
          else s)"

text \<open>The callback of the stability timer, run at the time \<open>due\<close>.\<close>

definition fireStability :: "Config \<Rightarrow> nat \<Rightarrow> GestureDetection \<Rightarrow> Engine \<Rightarrow> Engine" where
  "fireStability c due g s =
     s\<lparr>lastGestureRef := gesture g,
       gestureTimeoutRef := None,
       emitted := emitted s @ [(due, g)],
       resetTimers := resetTimers s @ [due + cooldownMs c]\<rparr>"

text \<open>The callback of the oldest inner timer.\<close>

definition fireReset :: "Engine \<Rightarrow> Engine" where
  "fireReset s = s\<lparr>lastGestureRef := [], resetTimers := tl (resetTimers s)\<rparr>"

definition resetFirst :: "Engine \<Rightarrow> bool" where
  "resetFirst s =
     (case resetTimers s of
        [] \<Rightarrow> False
      | r # _ \<Rightarrow> (case gestureTimeoutRef s of None \<Rightarrow> True | Some (d, _) \<Rightarrow> r \<le> d))"

text \<open>
  The event loop up to time \<open>t\<close>: every timer that is due by then runs, the earliest
  first; of a reset and a stability timer due at the same time the reset, which was set
  earlier, runs first. Frames are processed one at a time (the runtime is
  single-threaded), and a timer runs exactly when it is due.
\<close>

function advance :: "Config \<Rightarrow> nat \<Rightarrow> Engine \<Rightarrow> Engine" where
  "advance c t s =
     (if resetFirst s
      then (if hd (resetTimers s) \<le> t then advance c t (fireReset s) else s)
      else (case gestureTimeoutRef s of
              None \<Rightarrow> s
            | Some (d, g) \<Rightarrow> if d \<le> t then advance c t (fireStability c d g s) else s))"
  by pat_completeness auto
termination
proof (relation "measure (\<lambda>(c, t, s). length (resetTimers s) + (if gestureTimeoutRef s = None then 0 else 2))")
  show "wf (measure (\<lambda>(c, t, s). length (resetTimers s) + (if gestureTimeoutRef s = None then 0 else 2)))"
    by simp
next
  fix c :: Config and t :: nat and s :: Engine
  assume "resetFirst s"
  then show "((c, t, fireReset s), (c, t, s))
      \<in> measure (\<lambda>(c, t, s). length (resetTimers s) + (if gestureTimeoutRef s = None then 0 else 2))"
    by (cases "resetTimers s") (simp_all add: fireReset_def resetFirst_def)
next
  fix c :: Config and t :: nat and s :: Engine and x2 d g
  assume "gestureTimeoutRef s = Some x2"
  then show "((c, t, fireStability c d g s), (c, t, s))
      \<in> measure (\<lambda>(c, t, s). length (resetTimers s) + (if gestureTimeoutRef s = None then 0 else 2))"
    by (simp add: fireStability_def)
qed

declare advance.simps [simp del]

subsection \<open>processResults\<close>

text \<open>
  The result pairs the state after the call with the exception that ended it, if any.
\<close>

definition processResults :: "Config \<Rightarrow> nat \<Rightarrow> HandResults \<Rightarrow> Engine \<Rightarrow> Engine \<times> error option" where
  "processResults c now results s =
     (case multiHandLandmarks results of
        None \<Rightarrow> (s, None)
      | Some lms \<Rightarrow>
          if lms = [] then (s, None)
          else
            let handsByLabel = handsByLabelOf lms (multiHandedness results);
                upd = updateHistories now handsByLabel (historyRef s);
                s1 = s\<lparr>historyRef := fst upd\<rparr>
            in (case snd upd of
                  Some e \<Rightarrow> (s1, Some e)
                | None \<Rightarrow>
                    (case detectGesture now handsByLabel s1 of
                       Inl e \<Rightarrow> (s1, Some e)
                     | Inr detectedGesture \<Rightarrow> (debounce c now detectedGesture s1, None))))"

text \<open>A frame delivered by the detector at time \<open>now\<close>: the timers due by then have run.\<close>

definition onResults :: "Config \<Rightarrow> nat \<Rightarrow> HandResults \<Rightarrow> Engine \<Rightarrow> Engine" where
  "onResults c now results s = fst (processResults c now results (advance c now s))"

fun onResultsAll :: "Config \<Rightarrow> (nat \<times> HandResults) list \<Rightarrow> Engine \<Rightarrow> Engine" where
  "onResultsAll c [] s = s"
| "onResultsAll c ((now, results) # rest) s = onResultsAll c rest (onResults c now results s)"

text \<open>
  The same timeline seen from the debounce block: each frame is given by its time and the
  candidate the classifiers produced for it (\<open>None\<close> for no gesture, or no hands).
\<close>

primrec feed :: "Config \<Rightarrow> (nat \<times> GestureDetection option) list \<Rightarrow> Engine \<Rightarrow> Engine" where
  "feed c [] s = s"
| "feed c (frame # rest) s =
     (case frame of (now, cand) \<Rightarrow> feed c rest (debounce c now cand (advance c now s)))"

section \<open>Notions of the specification, and example inputs\<close>

text \<open>A hand observation that is present and has exactly 21 landmarks.\<close>

definition has21 :: "HandLandmark list option \<Rightarrow> bool" where
  "has21 lms = (case lms of None \<Rightarrow> False | Some l \<Rightarrow> length l = 21)"

text \<open>
  The pinky-only pose in the specification's words: the pinky tip is above its PIP joint,
  and the index, middle and ring tips are not above theirs.
\<close>

definition pinkyPose :: "HandLandmark list \<Rightarrow> bool" where
  "pinkyPose hand =
     (py (hand ! 20) < py (hand ! 18) \<and> \<not> py (hand ! 8) < py (hand ! 6)
      \<and> \<not> py (hand ! 12) < py (hand ! 10) \<and> \<not> py (hand ! 16) < py (hand ! 14))"

text \<open>A hand whose landmarks all coincide at the origin.\<close>

definition flatHand :: "HandLandmark list" where
  "flatHand = replicate 21 \<lparr>px = 0, py = 0, pz = 0\<rparr>"

text \<open>
  An upright open hand with its wrist at \<open>x = w\<close>: the four fingertips are above their
  PIP joints and the thumb tip is farther from the wrist than the thumb joint.
\<close>

definition openHand :: "real \<Rightarrow> HandLandmark list" where
  "openHand w =
     (replicate 21 \<lparr>px = w, py = 0.5, pz = 0\<rparr>)
       [0 := \<lparr>px = w, py = 0.9, pz = 0\<rparr>,
        4 := \<lparr>px = w - 0.3, py = 0.5, pz = 0\<rparr>,
        8 := \<lparr>px = w, py = 0.2, pz = 0\<rparr>,
        12 := \<lparr>px = w, py = 0.2, pz = 0\<rparr>,
        16 := \<lparr>px = w, py = 0.2, pz = 0\<rparr>,
        20 := \<lparr>px = w, py = 0.2, pz = 0\<rparr>]"

text \<open>A hand on which only the pinky tip is raised.\<close>

definition pinkyHand :: "HandLandmark list" where
  "pinkyHand = (replicate 21 \<lparr>px = 0.5, py = 0.5, pz = 0\<rparr>)[20 := \<lparr>px = 0.5, py = 0.3, pz = 0\<rparr>]"

text \<open>Uniform scaling of all landmark coordinates by a factor \<open>k\<close>.\<close>

definition scalePoint :: "real \<Rightarrow> HandLandmark \<Rightarrow> HandLandmark" where
  "scalePoint k p = \<lparr>px = k * px p, py = k * py p, pz = k * pz p\<rparr>"

definition scaleHand :: "real \<Rightarrow> HandLandmark list \<Rightarrow> HandLandmark list" where
  "scaleHand k lm = map (scalePoint k) lm"

text \<open>The index-to-pinky knuckle span, and "each of the five fingertips satisfies
  \<open>tip.y \<ge> pip.y\<close>".\<close>

definition knuckleSpan :: "HandLandmark list \<Rightarrow> real" where
  "knuckleSpan lm = calculateDistance (lm ! 5) (lm ! 17)"

definition allCurled :: "HandLandmark list \<Rightarrow> bool" where
  "allCurled lm =
     (py (lm ! 4) \<ge> py (lm ! 2) \<and> py (lm ! 8) \<ge> py (lm ! 6) \<and> py (lm ! 12) \<ge> py (lm ! 10)
      \<and> py (lm ! 16) \<ge> py (lm ! 14) \<and> py (lm ! 20) \<ge> py (lm ! 18))"

text \<open>
  A closed hand laid out along the x axis: the knuckles of index and pinky are 1 apart,
  the palm reference (landmark 9) is at 0.4 and the five tips lie between 0.2 and 0.6.
\<close>

definition fistHand :: "HandLandmark list" where
  "fistHand =
     (replicate 21 \<lparr>px = 0, py = 0, pz = 0\<rparr>)
       [17 := \<lparr>px = 1, py = 0, pz = 0\<rparr>,
        9 := \<lparr>px = 0.4, py = 0, pz = 0\<rparr>,
        4 := \<lparr>px = 0.2, py = 0, pz = 0\<rparr>,
        8 := \<lparr>px = 0.3, py = 0, pz = 0\<rparr>,
        12 := \<lparr>px = 0.4, py = 0, pz = 0\<rparr>,
        16 := \<lparr>px = 0.5, py = 0, pz = 0\<rparr>,
        20 := \<lparr>px = 0.6, py = 0, pz = 0\<rparr>]"

text \<open>
  The clap example of the specification: two hands whose palm centres are 0.08 apart in
  the current frame, with histories whose fifth sample from the end has the palm centres
  0.30 apart, and no audio detector attached.
\<close>

definition handAt :: "real \<Rightarrow> HandLandmark list" where
  "handAt x0 = replicate 21 \<lparr>px = x0, py = 0.5, pz = 0\<rparr>"

definition sampleAt :: "nat \<Rightarrow> real \<Rightarrow> Sample" where
  "sampleAt t x0 = \<lparr>s_ts = t, s_wrist = \<lparr>cx = x0, cy = 0.5\<rparr>, s_palmCenter = \<lparr>cx = x0, cy = 0.5\<rparr>\<rparr>"

definition clapEngine :: Engine where
  "clapEngine =
     (initEngine False)
       \<lparr>historyRef :=
          [''Left'' \<mapsto> [sampleAt 0 0.35, sampleAt 33 0.38, sampleAt 66 0.41, sampleAt 100 0.44, sampleAt 133 0.46],
           ''Right'' \<mapsto> [sampleAt 0 0.65, sampleAt 33 0.62, sampleAt 66 0.59, sampleAt 100 0.56, sampleAt 133 0.54]]\<rparr>"

text \<open>A wrist that went right, left and right again by 0.1.\<close>

definition waveHistory :: "Sample list" where
  "waveHistory = [sampleAt 0 0.6, sampleAt 33 0.7, sampleAt 66 0.6, sampleAt 100 0.7]"

text \<open>Two upright hands side by side, and two hands whose wrists are above their middle
  knuckles.\<close>

definition raisedHand :: "real \<Rightarrow> HandLandmark list" where
  "raisedHand x0 = (replicate 21 \<lparr>px = x0, py = 0.5, pz = 0\<rparr>)[0 := \<lparr>px = x0, py = 0.3, pz = 0\<rparr>]"

text \<open>The sample \<^verbatim>\<open>{ ts: now, wrist, palmCenter }\<close> that a frame at time \<open>now\<close> records
  for a hand with landmarks \<open>lm\<close>.\<close>

definition sampleOf :: "nat \<Rightarrow> HandLandmark list \<Rightarrow> Sample" where
  "sampleOf now lm =
     \<lparr>s_ts = now,
      s_wrist = \<lparr>cx = px (lm ! 0), cy = py (lm ! 0)\<rparr>,
      s_palmCenter = \<lparr>cx = (px (lm ! 5) + px (lm ! 9) + px (lm ! 13) + px (lm ! 17)) / 4,
                      cy = (py (lm ! 5) + py (lm ! 9) + py (lm ! 13) + py (lm ! 17)) / 4\<rparr>\<rparr>"

text \<open>A frame with one hand, reported as the right hand, and a state whose history for
  that label is full.\<close>

definition centreHand :: "HandLandmark list" where
  "centreHand = handAt (1 / 2)"

definition oldSample :: Sample where
  "oldSample = sampleAt 0 (1 / 2)"

definition oneHandFrame :: HandResults where
  "oneHandFrame =
     \<lparr>multiHandLandmarks = Some [centreHand],
      multiHandedness = Some [\<lparr>h_index = 0, h_score = 0.9, h_label = ''Right''\<rparr>]\<rparr>"

definition fullEngine :: Engine where
  "fullEngine = (initEngine False)\<lparr>historyRef := [''Right'' \<mapsto> replicate 30 oldSample]\<rparr>"

text \<open>
  Frame sequences for the debounce block. Every frame of \<open>frames\<close> carries a candidate
  with label \<open>L\<close>; consecutive frame times are in order and less than \<open>w\<close> apart.
\<close>

definition allLabelled :: "string \<Rightarrow> (nat \<times> GestureDetection option) list \<Rightarrow> bool" where
  "allLabelled L frames =
     list_all (\<lambda>(t, cand). case cand of None \<Rightarrow> False | Some g \<Rightarrow> gesture g = L) frames"

definition closelySpaced :: "nat \<Rightarrow> nat list \<Rightarrow> bool" where
  "closelySpaced w ts = list_all (\<lambda>(t, t'). t \<le> t' \<and> t' < t + w) (zip ts (tl ts))"

text \<open>A candidate with label \<open>L\<close> produced by the frame at time \<open>t\<close>.\<close>

definition candidate :: "string \<Rightarrow> nat \<Rightarrow> GestureDetection" where
  "candidate L t = \<lparr>gesture = L, confidence = 0.9, timestamp = t\<rparr>"

text \<open>A fist held for a quarter of a second, seen by the detector every 50 ms.\<close>

definition heldFist :: "(nat \<times> GestureDetection option) list" where
  "heldFist = map (\<lambda>t. (t, Some (candidate ''Fist'' t))) [0, 50, 100, 150, 200, 250]"

text \<open>
  An open palm seen once at 0 ms, then a fist seen at 1750, 1910, 1930 and 1960 ms.
\<close>

definition palmThenFist :: "(nat \<times> GestureDetection option) list" where
  "palmThenFist =
     (0, Some (candidate ''Open Palm'' 0))
       # map (\<lambda>t. (t, Some (candidate ''Fist'' t))) [1750, 1910, 1930, 1960]"

text \<open>An engine state given by its debounce refs and timers, with empty histories and no
  audio detector.\<close>

definition engineWith ::
  "string \<Rightarrow> (nat \<times> GestureDetection) option \<Rightarrow> nat list \<Rightarrow> (nat \<times> GestureDetection) list \<Rightarrow> Engine" where
  "engineWith l p rs e =
     \<lparr>lastGestureRef = l, gestureTimeoutRef = p, resetTimers = rs, historyRef = Map.empty,
      lastAudioClapRef = 0, audioClapRef = False, emitted = e\<rparr>"

section \<open>Malformed hands are rejected\<close>

lemma classifyGesture_invalid: "\<not> has21 lms \<Longrightarrow> classifyGesture now lms = None"
  by (cases lms) (simp_all add: classifyGesture_def has21_def)

lemma classifyGesture_part005_invalid: "\<not> has21 lms \<Longrightarrow> classifyGesture_part005 now lms = None"
  by (cases lms) (simp_all add: classifyGesture_part005_def has21_def)

lemma classifyTwoHandGesture_invalid:
  "\<not> has21 lh \<or> \<not> has21 rh \<Longrightarrow> classifyTwoHandGesture now lh rh hs = Inr None"
  by (cases lh; cases rh) (auto simp: classifyTwoHandGesture_def has21_def)

lemma classifyTwoHandGesture_part005_invalid:
  "\<not> has21 lh \<or> \<not> has21 rh \<Longrightarrow> classifyTwoHandGesture_part005 now lh rh = None"
  by (cases lh; cases rh) (auto simp: classifyTwoHandGesture_part005_def has21_def)

text \<open>
  Claim C3. For every input whose landmark list is missing or does not have exactly 21
  entries, \<^verbatim>\<open>classifyGesture\<close> returns null; \<^verbatim>\<open>classifyTwoHandGesture\<close> returns
  null whenever either hand is missing or does not have exactly 21 entries. The result
  \<open>Inr None\<close> of the two-hand classifier of \<^verbatim>\<open>gestureClassifier.ts\<close> says that it
  returned null and did not throw, whatever the handedness argument is. Both revisions
  of the classifier are covered.
\<close>

theorem invalid_hand_rejected:
  "(\<not> has21 lms \<longrightarrow> classifyGesture now lms = None \<and> classifyGesture_part005 now lms = None)
   \<and> (\<not> has21 lh \<or> \<not> has21 rh \<longrightarrow>
        classifyTwoHandGesture now lh rh hs = Inr None
        \<and> classifyTwoHandGesture_part005 now lh rh = None)"
  using classifyGesture_invalid classifyGesture_part005_invalid
    classifyTwoHandGesture_invalid classifyTwoHandGesture_part005_invalid
  by blast

theorem invalid_hand_rejected_witness:
  "\<not> has21 (Some (replicate 20 \<lparr>px = 0, py = 0, pz = 0\<rparr>))
   \<and> \<not> has21 None
   \<and> classifyGesture 7 (Some (replicate 20 \<lparr>px = 0, py = 0, pz = 0\<rparr>)) = None
   \<and> classifyGesture_part005 7 (Some (replicate 20 \<lparr>px = 0, py = 0, pz = 0\<rparr>)) = None
   \<and> classifyTwoHandGesture 7 (Some flatHand) None (Some []) = Inr None
   \<and> classifyTwoHandGesture_part005 7 (Some flatHand) None = None"
  using invalid_hand_rejected [of "Some (replicate 20 \<lparr>px = 0, py = 0, pz = 0\<rparr>)" 7 "Some flatHand" None "Some []"]
  by (simp add: has21_def)

section \<open>Open Palm and Stop\<close>

lemma fingersExtended_nth:
  "fingersExtended lm ! 0 = (py (lm ! 8) < py (lm ! 6))"
  "fingersExtended lm ! 1 = (py (lm ! 12) < py (lm ! 10))"
  "fingersExtended lm ! 2 = (py (lm ! 16) < py (lm ! 14))"
  "fingersExtended lm ! 3 = (py (lm ! 20) < py (lm ! 18))"
  by (simp_all add: fingersExtended_def isFingerExtended_def upt_rec)

lemma openHand_length: "length (openHand w) = 21"
  by (simp add: openHand_def)

lemma openHand_nth:
  "openHand w ! 0 = \<lparr>px = w, py = 0.9, pz = 0\<rparr>"
  "openHand w ! 2 = \<lparr>px = w, py = 0.5, pz = 0\<rparr>"
  "openHand w ! 4 = \<lparr>px = w - 0.3, py = 0.5, pz = 0\<rparr>"
  "openHand w ! 5 = \<lparr>px = w, py = 0.5, pz = 0\<rparr>"
  "openHand w ! 6 = \<lparr>px = w, py = 0.5, pz = 0\<rparr>"
  "openHand w ! 8 = \<lparr>px = w, py = 0.2, pz = 0\<rparr>"
  "openHand w ! 9 = \<lparr>px = w, py = 0.5, pz = 0\<rparr>"
  "openHand w ! 10 = \<lparr>px = w, py = 0.5, pz = 0\<rparr>"
  "openHand w ! 12 = \<lparr>px = w, py = 0.2, pz = 0\<rparr>"
  "openHand w ! 13 = \<lparr>px = w, py = 0.5, pz = 0\<rparr>"
  "openHand w ! 14 = \<lparr>px = w, py = 0.5, pz = 0\<rparr>"
  "openHand w ! 16 = \<lparr>px = w, py = 0.2, pz = 0\<rparr>"
  "openHand w ! 17 = \<lparr>px = w, py = 0.5, pz = 0\<rparr>"
  "openHand w ! 18 = \<lparr>px = w, py = 0.5, pz = 0\<rparr>"
  "openHand w ! 20 = \<lparr>px = w, py = 0.2, pz = 0\<rparr>"
  by (simp_all add: openHand_def)

lemma openHand_extendedCount: "extendedCount (openHand w) = 5"
  by (simp add: extendedCount_def fingersExtended_def isFingerExtended_def isThumbExtended_def
      calculateDistance_def openHand_nth upt_rec power2_eq_square)

text \<open>
  Claim C5. For every 21-landmark hand on which all five digits count as extended, the
  classifier of \<^verbatim>\<open>gestureClassifier.ts\<close> returns Open Palm when the wrist's x is in the
  right half of the frame (\<open>x \<ge> 0.5\<close>) and Stop when it is in the left half
  (\<open>x < 0.5\<close>); the result is never null. No earlier rule can match such a hand, since
  Thumbs-Up, Pointing and Victory ask for a count of 1, 1 and 2.
\<close>

theorem open_palm_or_stop:
  assumes "length lm = 21" and "extendedCount lm = 5"
  shows "classifyGesture now (Some lm) =
           Some \<lparr>gesture = (if px (lm ! 0) \<ge> 0.5 then ''Open Palm'' else ''Stop''),
                 confidence = 0.95, timestamp = now\<rparr>"
  using assms by (simp add: classifyGesture_def Let_def)

theorem open_palm_or_stop_witness:
  "length (openHand 0.7) = 21 \<and> extendedCount (openHand 0.7) = 5
   \<and> classifyGesture 0 (Some (openHand 0.7)) = Some \<lparr>gesture = ''Open Palm'', confidence = 0.95, timestamp = 0\<rparr>
   \<and> length (openHand 0.3) = 21 \<and> extendedCount (openHand 0.3) = 5
   \<and> classifyGesture 0 (Some (openHand 0.3)) = Some \<lparr>gesture = ''Stop'', confidence = 0.95, timestamp = 0\<rparr>"
  using open_palm_or_stop [of "openHand 0.7" 0] open_palm_or_stop [of "openHand 0.3" 0]
  by (simp add: openHand_length openHand_extendedCount openHand_nth)

section \<open>The pinky-only gate of the two-hand classifier\<close>

lemma pinkyOnly_pinkyPose: "pinkyOnly hand = pinkyPose hand"
  using fingersExtended_nth [of hand]
  by (simp add: pinkyOnly_def pinkyPose_def fingersExtended_def)

lemma pinkyHand_pose: "length pinkyHand = 21" "pinkyPose pinkyHand" "\<not> pinkyPose flatHand"
  by (simp_all add: pinkyHand_def pinkyPose_def flatHand_def)

lemma pinkyHand_namaste:
  "classifyTwoHandGesture 0 (Some pinkyHand) (Some pinkyHand) None
     = Inr (Some \<lparr>gesture = ''Namaste'', confidence = 0.9, timestamp = 0\<rparr>)"
  by (simp add: classifyTwoHandGesture_def pinkyOnly_pinkyPose pinkyHand_pose calculateDistance_def)

text \<open>
  Claim C10. In the two-hand classifier of \<^verbatim>\<open>gestureClassifier.ts\<close>, if either hand
  fails the pinky-only pattern the function returns null before any later rule is
  evaluated (so it cannot throw on a short handedness array either); consequently every
  non-null result, Cross Hands included, needs both hands in the pinky-only pose.
\<close>

theorem pinky_pose_gate:
  "(length l = 21 \<and> length r = 21 \<and> \<not> (pinkyPose l \<and> pinkyPose r)
      \<longrightarrow> classifyTwoHandGesture now (Some l) (Some r) hs = Inr None)
   \<and> (classifyTwoHandGesture now lh rh hs = Inr (Some g)
      \<longrightarrow> (\<exists>l r. lh = Some l \<and> rh = Some r \<and> pinkyPose l \<and> pinkyPose r))"
  by (auto simp: classifyTwoHandGesture_def pinkyOnly_pinkyPose Let_def
      split: option.splits if_splits list.splits)

theorem pinky_pose_gate_witness:
  "length flatHand = 21 \<and> length pinkyHand = 21 \<and> \<not> (pinkyPose flatHand \<and> pinkyPose pinkyHand)
   \<and> classifyTwoHandGesture 0 (Some flatHand) (Some pinkyHand) (Some []) = Inr None
   \<and> classifyTwoHandGesture 0 (Some pinkyHand) (Some pinkyHand) None
        = Inr (Some \<lparr>gesture = ''Namaste'', confidence = 0.9, timestamp = 0\<rparr>)
   \<and> (\<exists>l r. Some pinkyHand = Some l \<and> Some pinkyHand = Some r \<and> pinkyPose l \<and> pinkyPose r)"
  using pinky_pose_gate [of flatHand pinkyHand 0 "Some []" "Some pinkyHand" "Some pinkyHand"
      "\<lparr>gesture = ''Namaste'', confidence = 0.9, timestamp = 0\<rparr>"]
    pinkyHand_namaste pinkyHand_pose
  by (simp add: flatHand_def)

section \<open>The robust fist test and its scale invariance\<close>

lemma calculateDistance_scale:
  assumes "0 \<le> k"
  shows "calculateDistance (scalePoint k p) (scalePoint k q) = k * calculateDistance p q"
proof -
  have "(k * px p - k * px q)\<^sup>2 + (k * py p - k * py q)\<^sup>2 + (k * pz p - k * pz q)\<^sup>2
      = k\<^sup>2 * ((px p - px q)\<^sup>2 + (py p - py q)\<^sup>2 + (pz p - pz q)\<^sup>2)"
    by (simp add: power2_eq_square algebra_simps)
  then show ?thesis
    using assms by (simp add: calculateDistance_def scalePoint_def real_sqrt_mult)
qed

lemma calculateDistance_nonneg: "0 \<le> calculateDistance p q"
  by (simp add: calculateDistance_def)

lemma scaleHand_nth: "i < length lm \<Longrightarrow> scaleHand k lm ! i = scalePoint k (lm ! i)"
  by (simp add: scaleHand_def)

lemma scaleHand_length: "length (scaleHand k lm) = length lm"
  by (simp add: scaleHand_def)

lemma avgTipToPalm_scale:
  assumes "length lm = 21" and "0 \<le> k"
  shows "avgTipToPalm (scaleHand k lm) = k * avgTipToPalm lm"
  using assms
  by (simp add: avgTipToPalm_def Let_def tipIndicesAll_def scaleHand_nth calculateDistance_scale algebra_simps)

lemma spread_step_scale:
  fixes k d m :: real
  assumes "0 \<le> k"
  shows "(if k * d > k * m then k * d else k * m) = k * (if d > m then d else m)"
proof (cases "k = 0")
  case True
  then show ?thesis by simp
next
  case False
  with assms have "0 < k" by simp
  then show ?thesis by (simp add: mult_less_cancel_left_pos)
qed

lemma spread_foldl_scale:
  assumes "length lm = 21" and "0 \<le> k"
    and "\<forall>(i, j) \<in> set ps. i < 5 \<and> j < 5"
  shows "foldl (\<lambda>m (i, j).
              let d = calculateDistance (scaleHand k lm ! (tipIndicesAll ! i)) (scaleHand k lm ! (tipIndicesAll ! j))
              in if d > m then d else m) (k * m0) ps
       = k * foldl (\<lambda>m (i, j).
              let d = calculateDistance (lm ! (tipIndicesAll ! i)) (lm ! (tipIndicesAll ! j))
              in if d > m then d else m) m0 ps"
  using assms(3)
proof (induction ps arbitrary: m0)
  case Nil
  then show ?case by simp
next
  case (Cons a ps)
  obtain i j where a: "a = (i, j)" by (cases a)
  with Cons.prems have ij: "i < 5" "j < 5" by auto
  have idx: "tipIndicesAll ! i < 21" "tipIndicesAll ! j < 21"
    using ij by (auto simp: tipIndicesAll_def nth_Cons' )
  have step: "(let d = calculateDistance (scaleHand k lm ! (tipIndicesAll ! i)) (scaleHand k lm ! (tipIndicesAll ! j))
              in if d > k * m0 then d else k * m0)
        = k * (let d = calculateDistance (lm ! (tipIndicesAll ! i)) (lm ! (tipIndicesAll ! j))
              in if d > m0 then d else m0)"
    using idx assms(1,2)
    by (simp add: Let_def scaleHand_nth calculateDistance_scale spread_step_scale)
  show ?case
    using Cons.IH [of "let d = calculateDistance (lm ! (tipIndicesAll ! i)) (lm ! (tipIndicesAll ! j))
              in if d > m0 then d else m0"] Cons.prems
    by (simp add: a step)
qed

lemma tipPairs_range: "\<forall>(i, j) \<in> set tipPairs. i < 5 \<and> j < 5"
  by (auto simp: tipPairs_def tipIndicesAll_def)

lemma maxTipSpread_scale:
  assumes "length lm = 21" and "0 \<le> k"
  shows "maxTipSpread (scaleHand k lm) = k * maxTipSpread lm"
  using spread_foldl_scale [OF assms tipPairs_range, of 0]
  by (simp add: maxTipSpread_def)

lemma curledCount_allCurled:
  assumes "allCurled lm"
  shows "curledCount lm = 5"
  using assms
  by (simp add: curledCount_def allCurled_def tipIndicesAll_def pipIndices_def upt_rec)

lemma allCurled_scale:
  assumes "length lm = 21" and "0 \<le> k" and "allCurled lm"
  shows "allCurled (scaleHand k lm)"
  using assms
  by (simp add: allCurled_def scaleHand_nth scalePoint_def mult_left_mono)

lemma handWidth_scale:
  assumes "length lm = 21" and "0 < k" and "0 < knuckleSpan lm"
  shows "handWidth (scaleHand k lm) = k * knuckleSpan lm"
  using assms
  by (simp add: handWidth_def knuckleSpan_def scaleHand_nth calculateDistance_scale Let_def)

lemma fist_rule:
  assumes "length lm = 21" and "4 \<le> curledCount lm"
    and "avgTipToPalm lm / handWidth lm < 0.6" and "maxTipSpread lm / handWidth lm < 0.45"
  shows "classifyGesture_part005 now (Some lm)
           = Some \<lparr>gesture = ''Fist'', confidence = 0.96, timestamp = now\<rparr>"
  using assms by (simp add: classifyGesture_part005_def Let_def)

text \<open>
  Claim C4. For every 21-landmark hand in which each of the five fingertips satisfies
  \<open>tip.y \<ge> pip.y\<close> and whose average tip-to-palm distance and maximum tip-to-tip
  spread, each divided by the index-to-pinky knuckle span, are below 0.6 and 0.45, the
  static classifier with the robust fist test returns Fist, and it still does after all
  landmark coordinates are multiplied by any positive factor. Dividing by the span asks
  for a span that is not zero (the code divides by 1 when the span is zero).
\<close>

theorem fist_scale_invariant:
  assumes "length lm = 21"
    and "allCurled lm"
    and "0 < knuckleSpan lm"
    and "avgTipToPalm lm / knuckleSpan lm < 0.6"
    and "maxTipSpread lm / knuckleSpan lm < 0.45"
    and "0 < k"
  shows "classifyGesture_part005 now (Some lm)
           = Some \<lparr>gesture = ''Fist'', confidence = 0.96, timestamp = now\<rparr>
       \<and> classifyGesture_part005 now (Some (scaleHand k lm))
           = Some \<lparr>gesture = ''Fist'', confidence = 0.96, timestamp = now\<rparr>"
proof -
  have fist: "classifyGesture_part005 now (Some (scaleHand j lm))
           = Some \<lparr>gesture = ''Fist'', confidence = 0.96, timestamp = now\<rparr>" if "0 < j" for j
  proof -
    have j0: "0 \<le> j" using that by simp
    have c: "curledCount (scaleHand j lm) = 5"
      using allCurled_scale [OF assms(1) j0 assms(2)] by (rule curledCount_allCurled)
    have w: "handWidth (scaleHand j lm) = j * knuckleSpan lm"
      using handWidth_scale [OF assms(1) that assms(3)] .
    have a: "avgTipToPalm (scaleHand j lm) / handWidth (scaleHand j lm) = avgTipToPalm lm / knuckleSpan lm"
      using that by (simp add: w avgTipToPalm_scale [OF assms(1) j0])
    have m: "maxTipSpread (scaleHand j lm) / handWidth (scaleHand j lm) = maxTipSpread lm / knuckleSpan lm"
      using that by (simp add: w maxTipSpread_scale [OF assms(1) j0])
    show ?thesis
    proof (rule fist_rule)
      show "length (scaleHand j lm) = 21" using assms(1) by (simp add: scaleHand_length)
      show "4 \<le> curledCount (scaleHand j lm)" by (simp add: c)
      show "avgTipToPalm (scaleHand j lm) / handWidth (scaleHand j lm) < 0.6"
        using assms(4) by (simp only: a)
      show "maxTipSpread (scaleHand j lm) / handWidth (scaleHand j lm) < 0.45"
        using assms(5) by (simp only: m)
    qed
  qed
  have "scalePoint 1 = (\<lambda>p. p)"
    by (rule ext) (simp add: scalePoint_def)
  then have "scaleHand 1 lm = lm"
    by (simp add: scaleHand_def)
  with fist [of 1] fist [OF assms(6)] show ?thesis by simp
qed

lemma calculateDistance_along_x:
  assumes "py p = py q" and "pz p = pz q"
  shows "calculateDistance p q = \<bar>px p - px q\<bar>"
  using assms by (simp add: calculateDistance_def)

lemma fistHand_length: "length fistHand = 21"
  by (simp add: fistHand_def)

lemma fistHand_nth:
  "fistHand ! 2 = \<lparr>px = 0, py = 0, pz = 0\<rparr>"
  "fistHand ! 4 = \<lparr>px = 0.2, py = 0, pz = 0\<rparr>"
  "fistHand ! 5 = \<lparr>px = 0, py = 0, pz = 0\<rparr>"
  "fistHand ! 6 = \<lparr>px = 0, py = 0, pz = 0\<rparr>"
  "fistHand ! 8 = \<lparr>px = 0.3, py = 0, pz = 0\<rparr>"
  "fistHand ! 9 = \<lparr>px = 0.4, py = 0, pz = 0\<rparr>"
  "fistHand ! 10 = \<lparr>px = 0, py = 0, pz = 0\<rparr>"
  "fistHand ! 12 = \<lparr>px = 0.4, py = 0, pz = 0\<rparr>"
  "fistHand ! 14 = \<lparr>px = 0, py = 0, pz = 0\<rparr>"
  "fistHand ! 16 = \<lparr>px = 0.5, py = 0, pz = 0\<rparr>"
  "fistHand ! 17 = \<lparr>px = 1, py = 0, pz = 0\<rparr>"
  "fistHand ! 18 = \<lparr>px = 0, py = 0, pz = 0\<rparr>"
  "fistHand ! 20 = \<lparr>px = 0.6, py = 0, pz = 0\<rparr>"
  by (simp_all add: fistHand_def)

lemma fistHand_measures:
  "allCurled fistHand" "knuckleSpan fistHand = 1"
  "avgTipToPalm fistHand = 0.12" "maxTipSpread fistHand = 0.4"
  by (simp_all add: allCurled_def knuckleSpan_def avgTipToPalm_def maxTipSpread_def tipPairs_def
      tipIndicesAll_def upt_rec Let_def fistHand_nth calculateDistance_along_x)

theorem fist_scale_invariant_witness:
  "length fistHand = 21 \<and> allCurled fistHand \<and> 0 < knuckleSpan fistHand
   \<and> avgTipToPalm fistHand / knuckleSpan fistHand < 0.6
   \<and> maxTipSpread fistHand / knuckleSpan fistHand < 0.45
   \<and> (0 :: real) < 2
   \<and> classifyGesture_part005 0 (Some fistHand)
        = Some \<lparr>gesture = ''Fist'', confidence = 0.96, timestamp = 0\<rparr>
   \<and> classifyGesture_part005 0 (Some (scaleHand 2 fistHand))
        = Some \<lparr>gesture = ''Fist'', confidence = 0.96, timestamp = 0\<rparr>"
  using fist_scale_invariant [of fistHand 2 0]
  by (simp add: fistHand_length fistHand_measures)

text \<open>
  The revision in \<^verbatim>\<open>gestureClassifier.ts\<close> has no fist rule: it counts the thumb of
  the example hand as extended and answers Thumbs-Up.
\<close>

lemma fistHand_without_fist_rule:
  "classifyGesture now (Some fistHand) = Some \<lparr>gesture = ''Thumbs-Up'', confidence = 0.9, timestamp = now\<rparr>"
proof -
  have w: "fistHand ! 0 = \<lparr>px = 0, py = 0, pz = 0\<rparr>"
    by (simp add: fistHand_def)
  have t: "isThumbExtended fistHand"
    by (simp add: isThumbExtended_def fistHand_nth w calculateDistance_along_x)
  have c: "extendedCount fistHand = 1"
    by (simp add: extendedCount_def t fingersExtended_def isFingerExtended_def fistHand_nth upt_rec)
  show ?thesis
    by (simp add: classifyGesture_def fistHand_length t c)
qed

section \<open>Two-hand rules of the frame processor\<close>

lemma distance_xyPoint: "distance (xyPoint p) (xyPoint q) = None"
  by (simp add: distance_def xyPoint_def)

lemma clapRule_dead: "clapRule now s ah bh palmDist = None"
  by (simp add: clapRule_def distance_xyPoint num_sub_def num_gt_def split: option.splits)

lemma namasteRule_dead: "namasteRule now a b (distance (xyPoint p) (xyPoint q)) = None"
  by (simp add: namasteRule_def distance_xyPoint num_lt_def Let_def)

lemma twoHandGesture_eq:
  assumes "17 < length a" and "17 < length b"
  shows "twoHandGesture now s la a lb b =
           Inr (case crossRule now a b of Some g \<Rightarrow> Some g | None \<Rightarrow> raiseBothRule now a b)"
  using assms
  by (simp add: twoHandGesture_def palmCenter_def Let_def clapRule_dead namasteRule_dead)

lemma twoHandGesture_labels:
  assumes "twoHandGesture now s la a lb b = Inr (Some g)"
  shows "gesture g = ''Cross Hands'' \<or> gesture g = ''Raise Both Hands''"
  using assms
  by (auto simp: twoHandGesture_def palmCenter_def Let_def clapRule_dead namasteRule_dead
      crossRule_def raiseBothRule_def split: if_splits sum.splits option.splits)

lemma classifyGesture_part005_labels:
  assumes "classifyGesture_part005 now lms = Some g"
  shows "gesture g \<in> {''Fist'', ''Thumbs-Up'', ''Pointing'', ''Victory'', ''Backhand'', ''Open Palm'', ''Wave''}"
proof (cases lms)
  case None
  with assms show ?thesis by (simp add: classifyGesture_part005_def)
next
  case (Some lm)
  with assms show ?thesis
    by (auto simp: classifyGesture_part005_def Let_def split: if_splits)
qed

lemma singleHandGesture_labels:
  assumes "singleHandGesture now hist lm = Some g"
  shows "gesture g \<in> {''Fist'', ''Thumbs-Up'', ''Pointing'', ''Victory'', ''Backhand'', ''Open Palm'',
                       ''Wave'', ''Raise Hand''}"
proof (cases "classifyGesture_part005 now (Some lm)")
  case None
  with assms show ?thesis by (simp add: singleHandGesture_def)
next
  case (Some sg)
  from classifyGesture_part005_labels [OF Some] Some assms show ?thesis
    by (auto simp: singleHandGesture_def Let_def split: if_splits)
qed

lemma singleHandLoop_labels:
  assumes "singleHandLoop now h hbl = Some g"
  shows "gesture g \<in> {''Fist'', ''Thumbs-Up'', ''Pointing'', ''Victory'', ''Backhand'', ''Open Palm'',
                       ''Wave'', ''Raise Hand''}"
  using assms
proof (induction hbl)
  case Nil
  then show ?case by simp
next
  case (Cons e hbl)
  obtain label lm where e: "e = (label, lm)" by (cases e)
  show ?case
  proof (cases "singleHandGesture now (histOf h label) lm")
    case None
    with Cons e show ?thesis by simp
  next
    case (Some sg)
    with Cons.prems e have "sg = g" by simp
    with singleHandGesture_labels [OF Some] show ?thesis by simp
  qed
qed

text \<open>
  Claim C6 (the code departs from it). The claim says that a Clap candidate is produced
  exactly when the palm-centre distance fell by more than 0.12 since five samples ago,
  is now below 0.12 and, with an audio detector attached, a transient was heard within
  800 ms. In the code both distances are computed by \<^verbatim>\<open>GestureClassifier.distance\<close>
  on palm centres that have no \<^verbatim>\<open>z\<close>, so both are \<^verbatim>\<open>NaN\<close>, the comparisons
  are false and the Clap branch is never taken: no frame yields a Clap candidate.
\<close>

theorem clap_never_detected:
  assumes "detectGesture now handsByLabel s = Inr (Some g)"
  shows "gesture g \<noteq> ''Clap''"
proof -
  let ?two = "case handsByLabel of [(la, a), (lb, b)] \<Rightarrow> twoHandGesture now s la a lb b | _ \<Rightarrow> Inr None"
  show ?thesis
  proof (cases ?two)
    case (Inl e)
    with assms show ?thesis by (simp add: detectGesture_def)
  next
    case (Inr r)
    show ?thesis
    proof (cases r)
      case None
      with Inr assms have "singleHandLoop now (historyRef s) handsByLabel = Some g"
        by (simp add: detectGesture_def)
      from singleHandLoop_labels [OF this] show ?thesis by auto
    next
      case (Some tg)
      with Inr assms have g: "tg = g" by (simp add: detectGesture_def)
      from Inr Some obtain la a lb b where "twoHandGesture now s la a lb b = Inr (Some tg)"
        by (auto split: list.splits prod.splits)
      from twoHandGesture_labels [OF this] g show ?thesis by auto
    qed
  qed
qed

lemma handAt_length: "length (handAt x0) = 21"
  by (simp add: handAt_def)

lemma handAt_nth: "i < 21 \<Longrightarrow> handAt x0 ! i = \<lparr>px = x0, py = 0.5, pz = 0\<rparr>"
  by (simp add: handAt_def)

lemma handAt_fist:
  "classifyGesture_part005 now (Some (handAt x0))
     = Some \<lparr>gesture = ''Fist'', confidence = 0.96, timestamp = now\<rparr>"
proof (rule fist_rule)
  show "length (handAt x0) = 21" by (rule handAt_length)
  have "allCurled (handAt x0)"
    by (simp add: allCurled_def handAt_nth)
  then show "4 \<le> curledCount (handAt x0)"
    by (simp add: curledCount_allCurled)
  have w: "handWidth (handAt x0) = 1"
    by (simp add: handWidth_def handAt_nth calculateDistance_def)
  have "avgTipToPalm (handAt x0) = 0"
    by (simp add: avgTipToPalm_def tipIndicesAll_def handAt_nth calculateDistance_def)
  then show "avgTipToPalm (handAt x0) / handWidth (handAt x0) < 0.6"
    by (simp add: w)
  have "maxTipSpread (handAt x0) = 0"
    by (simp add: maxTipSpread_def tipPairs_def tipIndicesAll_def upt_rec handAt_nth calculateDistance_def)
  then show "maxTipSpread (handAt x0) / handWidth (handAt x0) < 0.45"
    by (simp add: w)
qed

lemma handAt_palmCenter: "palmCenter (handAt x0) = Inr \<lparr>cx = x0, cy = 0.5\<rparr>"
  by (simp add: palmCenter_def handAt_length handAt_nth)

lemma clapEngine_history:
  "prevPalm (histOf (historyRef clapEngine) ''Left'') = Some \<lparr>cx = 0.35, cy = 0.5\<rparr>"
  "prevPalm (histOf (historyRef clapEngine) ''Right'') = Some \<lparr>cx = 0.65, cy = 0.5\<rparr>"
  "\<not> audioClapRef clapEngine"
  by (simp_all add: clapEngine_def initEngine_def histOf_def prevPalm_def sampleAt_def)

lemma clapEngine_detect:
  "detectGesture 133 [(''Left'', handAt 0.46), (''Right'', handAt 0.54)] clapEngine
     = Inr (Some \<lparr>gesture = ''Fist'', confidence = 0.96, timestamp = 133\<rparr>)"
  by (simp add: detectGesture_def twoHandGesture_eq handAt_length crossRule_def raiseBothRule_def
      handAt_nth singleHandGesture_def handAt_fist)

text \<open>
  The example of the specification: the palm centres were 0.30 apart five samples ago
  and are 0.08 apart now, and no audio detector is attached. The frame's candidate is the
  static classification of the first hand, not Clap.
\<close>

theorem clap_never_detected_witness:
  "palmCenter (handAt 0.46) = Inr \<lparr>cx = 0.46, cy = 0.5\<rparr>
   \<and> palmCenter (handAt 0.54) = Inr \<lparr>cx = 0.54, cy = 0.5\<rparr>
   \<and> prevPalm (histOf (historyRef clapEngine) ''Left'') = Some \<lparr>cx = 0.35, cy = 0.5\<rparr>
   \<and> prevPalm (histOf (historyRef clapEngine) ''Right'') = Some \<lparr>cx = 0.65, cy = 0.5\<rparr>
   \<and> \<not> audioClapRef clapEngine
   \<and> detectGesture 133 [(''Left'', handAt 0.46), (''Right'', handAt 0.54)] clapEngine
        = Inr (Some \<lparr>gesture = ''Fist'', confidence = 0.96, timestamp = 133\<rparr>)
   \<and> gesture \<lparr>gesture = ''Fist'', confidence = 0.96, timestamp = 133\<rparr> \<noteq> ''Clap''"
proof -
  have "gesture \<lparr>gesture = ''Fist'', confidence = 0.96, timestamp = 133\<rparr> \<noteq> ''Clap''"
    using clap_never_detected [OF clapEngine_detect] .
  with handAt_palmCenter [of "0.46"] handAt_palmCenter [of "0.54"] clapEngine_history clapEngine_detect
  show ?thesis by blast
qed

section \<open>Raise Both Hands\<close>

text \<open>
  With the Clap and Namaste rules dead (\<open>clapRule_dead\<close>, \<open>namasteRule_dead\<close>), the
  only earlier two-hand rule that can match is Cross Hands.
\<close>

text \<open>
  A frame with two hands reaches the two-hand rules when the hands carry two different
  labels; two hands reported under one label are one entry of \<^verbatim>\<open>handsByLabel\<close>, the
  second hand replacing the first.
\<close>

lemma handsByLabelOf_two_labels:
  assumes "h_label ha \<noteq> []" and "h_label hb \<noteq> []" and "h_label ha \<noteq> h_label hb"
  shows "handsByLabelOf [a, b] (Some [ha, hb]) = [(h_label ha, a), (h_label hb, b)]"
  using assms by (simp add: handsByLabelOf_def handLabel_def)

lemma handsByLabelOf_same_label:
  assumes "h_label ha \<noteq> []" and "h_label hb = h_label ha"
  shows "handsByLabelOf [a, b] (Some [ha, hb]) = [(h_label ha, b)]"
  using assms by (simp add: handsByLabelOf_def handLabel_def)

lemma detectGesture_two:
  assumes "length a = 21" and "length b = 21" and "crossRule now a b = None"
  shows "detectGesture now [(la, a), (lb, b)] s =
           Inr (case raiseBothRule now a b of
                  Some g \<Rightarrow> Some g
                | None \<Rightarrow> singleHandLoop now (historyRef s) [(la, a), (lb, b)])"
  using assms by (simp add: detectGesture_def twoHandGesture_eq split: option.splits)

text \<open>
  Claim C8. For every pair of observed 21-landmark hands for which no earlier two-hand
  rule matched, the frame's candidate is Raise Both Hands exactly when each hand's wrist
  y is less than that hand's own middle-knuckle (landmark 9) y by the margin 0.02. The
  pair is the two entries of \<^verbatim>\<open>handsByLabel\<close>; when the rule does not fire, the
  single-hand rules that run next never produce this label.
\<close>

theorem raise_both_hands_iff:
  assumes "length a = 21" and "length b = 21" and "crossRule now a b = None"
  shows "(\<exists>g. detectGesture now [(la, a), (lb, b)] s = Inr (Some g) \<and> gesture g = ''Raise Both Hands'')
         = (py (a ! 0) < py (a ! 9) - 0.02 \<and> py (b ! 0) < py (b ! 9) - 0.02)"
proof (cases "py (a ! 0) < py (a ! 9) - 0.02 \<and> py (b ! 0) < py (b ! 9) - 0.02")
  case True
  then have "raiseBothRule now a b = Some \<lparr>gesture = ''Raise Both Hands'', confidence = 0.9, timestamp = now\<rparr>"
    by (simp add: raiseBothRule_def)
  with True show ?thesis
    by (simp add: detectGesture_two [OF assms])
next
  case False
  then have none: "raiseBothRule now a b = None"
    by (auto simp: raiseBothRule_def)
  have "gesture g \<noteq> ''Raise Both Hands''"
    if "detectGesture now [(la, a), (lb, b)] s = Inr (Some g)" for g
  proof -
    from that have "singleHandLoop now (historyRef s) [(la, a), (lb, b)] = Some g"
      by (simp add: detectGesture_two [OF assms] none)
    from singleHandLoop_labels [OF this] show ?thesis by auto
  qed
  with False show ?thesis by blast
qed

lemma raisedHand_facts:
  "length (raisedHand x0) = 21"
  "raisedHand x0 ! 0 = \<lparr>px = x0, py = 0.3, pz = 0\<rparr>"
  "raisedHand x0 ! 9 = \<lparr>px = x0, py = 0.5, pz = 0\<rparr>"
  by (simp_all add: raisedHand_def)

theorem raise_both_hands_iff_witness:
  "length (raisedHand 0.3) = 21 \<and> length (raisedHand 0.7) = 21
   \<and> crossRule 0 (raisedHand 0.3) (raisedHand 0.7) = None
   \<and> py (raisedHand 0.3 ! 0) < py (raisedHand 0.3 ! 9) - 0.02
   \<and> py (raisedHand 0.7 ! 0) < py (raisedHand 0.7 ! 9) - 0.02
   \<and> (\<exists>g. detectGesture 0 [(''Left'', raisedHand 0.3), (''Right'', raisedHand 0.7)] (initEngine False)
              = Inr (Some g) \<and> gesture g = ''Raise Both Hands'')"
  using raise_both_hands_iff [of "raisedHand 0.3" "raisedHand 0.7" 0 "''Left''" "''Right''" "initEngine False"]
  by (simp add: raisedHand_facts crossRule_def)

text \<open>
  The stand-alone \<^verbatim>\<open>classifyTwoHandGesture\<close> of the revision with the robust fist
  test, which the frame processor does not call, tests the opposite inequality and has
  no margin.
\<close>

lemma part005_raise_both_hands:
  assumes "classifyTwoHandGesture_part005 now (Some a) (Some b) = Some g"
    and "gesture g = ''Raise Both Hands''"
  shows "py (a ! 0) > py (a ! 9) \<and> py (b ! 0) > py (b ! 9)"
  using assms
  by (auto simp: classifyTwoHandGesture_part005_def Let_def split: if_splits)

section \<open>Wave\<close>

text \<open>
  Claim C7. Whenever a hand's static classification is Open Palm and its wrist-x history
  shows at least 2 direction reversals and a peak-to-peak amplitude above 0.06, the
  candidate produced for that hand is Wave, not Open Palm; in a frame with that hand
  alone this is the frame's candidate.
\<close>

theorem open_palm_upgraded_to_wave:
  assumes "classifyGesture_part005 now (Some lm) = Some g"
    and "gesture g = ''Open Palm''"
    and "2 \<le> reversals (map (\<lambda>h. cx (s_wrist h)) hist)"
    and "0.06 < amplitude (map (\<lambda>h. cx (s_wrist h)) hist)"
  shows "singleHandGesture now hist lm = Some \<lparr>gesture = ''Wave'', confidence = 0.92, timestamp = now\<rparr>
       \<and> (histOf (historyRef s) label = hist \<longrightarrow>
            detectGesture now [(label, lm)] s
              = Inr (Some \<lparr>gesture = ''Wave'', confidence = 0.92, timestamp = now\<rparr>))"
  using assms by (simp add: singleHandGesture_def detectGesture_def)

lemma openHand_part005:
  "classifyGesture_part005 now (Some (openHand w))
     = Some \<lparr>gesture = ''Open Palm'', confidence = 0.95, timestamp = now\<rparr>"
proof -
  have c: "curledCount (openHand w) = 1"
    by (simp add: curledCount_def tipIndicesAll_def pipIndices_def upt_rec openHand_nth)
  have n: "pz (computePalmNormalFrom (openHand w)) = 0"
    by (simp add: computePalmNormalFrom_def openHand_nth)
  show ?thesis
    by (simp add: classifyGesture_part005_def openHand_length openHand_extendedCount c n Let_def)
qed

lemma waveHistory_measures:
  "reversals (map (\<lambda>h. cx (s_wrist h)) waveHistory) = 2"
  "amplitude (map (\<lambda>h. cx (s_wrist h)) waveHistory) = 0.1"
  by (simp_all add: waveHistory_def sampleAt_def reversals_def amplitude_def upt_rec)

theorem open_palm_upgraded_to_wave_witness:
  "classifyGesture_part005 100 (Some (openHand 0.7))
     = Some \<lparr>gesture = ''Open Palm'', confidence = 0.95, timestamp = 100\<rparr>
   \<and> 2 \<le> reversals (map (\<lambda>h. cx (s_wrist h)) waveHistory)
   \<and> 0.06 < amplitude (map (\<lambda>h. cx (s_wrist h)) waveHistory)
   \<and> singleHandGesture 100 waveHistory (openHand 0.7)
        = Some \<lparr>gesture = ''Wave'', confidence = 0.92, timestamp = 100\<rparr>
   \<and> detectGesture 100 [(''Right'', openHand 0.7)]
        ((initEngine False)\<lparr>historyRef := [''Right'' \<mapsto> waveHistory]\<rparr>)
        = Inr (Some \<lparr>gesture = ''Wave'', confidence = 0.92, timestamp = 100\<rparr>)"
  using open_palm_upgraded_to_wave [where lm = "openHand 0.7" and now = 100 and hist = waveHistory
      and s = "(initEngine False)\<lparr>historyRef := [''Right'' \<mapsto> waveHistory]\<rparr>" and label = "''Right''"]
  by (simp add: openHand_part005 waveHistory_measures histOf_def)

section \<open>The history buffers\<close>

lemma pushSample_eq:
  "pushSample smp h = (if length h < 30 then h @ [smp] else tl h @ [smp])"
  by (cases h) (auto simp: pushSample_def Let_def)

lemma pushSample_length:
  assumes "length h \<le> 30"
  shows "length (pushSample smp h) \<le> 30"
  using assms by (simp add: pushSample_eq)

lemma histOf_upd: "histOf (h(l \<mapsto> v)) k = (if k = l then v else histOf h k)"
  by (simp add: histOf_def)

lemma palmCenter_sampleOf:
  assumes "17 < length lm"
  shows "palmCenter lm = Inr (s_palmCenter (sampleOf now lm))"
  using assms by (simp add: palmCenter_def sampleOf_def)

lemma updateHistories_bounded:
  assumes "\<forall>l. length (histOf h l) \<le> 30"
  shows "\<forall>l. length (histOf (fst (updateHistories now hbl h)) l) \<le> 30"
  using assms
proof (induction hbl arbitrary: h)
  case Nil
  then show ?case by simp
next
  case (Cons e hbl)
  obtain label lm where e: "e = (label, lm)" by (cases e)
  show ?case
  proof (cases "lm = [] \<or> (\<exists>err. palmCenter lm = Inl err)")
    case True
    with Cons.prems e show ?thesis by auto
  next
    case False
    then obtain palm where palm: "palmCenter lm = Inr palm" and ne: "lm \<noteq> []"
      by (cases "palmCenter lm") auto
    let ?h1 = "h(label \<mapsto> pushSample \<lparr>s_ts = now, s_wrist = \<lparr>cx = px (lm ! 0), cy = py (lm ! 0)\<rparr>,
                                           s_palmCenter = palm\<rparr> (histOf h label))"
    have step: "updateHistories now (e # hbl) h = updateHistories now hbl ?h1"
      by (simp add: e palm ne)
    have "\<forall>l. length (histOf ?h1 l) \<le> 30"
      using Cons.prems by (simp add: histOf_upd pushSample_length)
    from Cons.IH [OF this] show ?thesis
      unfolding step .
  qed
qed

lemma updateHistories_exact:
  assumes "distinct (map fst hbl)" and "\<forall>(l, lm) \<in> set hbl. 17 < length lm"
  shows "updateHistories now hbl h =
           (\<lambda>l. case map_of hbl l of
                   None \<Rightarrow> h l
                 | Some lm \<Rightarrow> Some (pushSample (sampleOf now lm) (histOf h l)), None)"
  using assms
proof (induction hbl arbitrary: h)
  case Nil
  then show ?case by simp
next
  case (Cons e hbl)
  obtain label lm where e: "e = (label, lm)" by (cases e)
  from Cons.prems e have len: "17 < length lm" and fresh: "label \<notin> fst ` set hbl"
    and d: "distinct (map fst hbl)" and rest: "\<forall>(l, lm) \<in> set hbl. 17 < length lm"
    by auto
  from len have ne: "lm \<noteq> []" by auto
  let ?h1 = "h(label \<mapsto> pushSample (sampleOf now lm) (histOf h label))"
  have step: "updateHistories now (e # hbl) h = updateHistories now hbl ?h1"
    using palmCenter_sampleOf [OF len, of now] ne
    by (simp add: e sampleOf_def)
  have other: "histOf ?h1 l = histOf h l" if "map_of hbl l = Some lm'" for l lm'
  proof -
    from that have "l \<in> fst ` set hbl" by (metis map_of_SomeD image_eqI fst_conv)
    with fresh have "l \<noteq> label" by auto
    then show ?thesis by (simp add: histOf_upd)
  qed
  have eq: "(\<lambda>l. case map_of hbl l of None \<Rightarrow> ?h1 l
              | Some lm' \<Rightarrow> Some (pushSample (sampleOf now lm') (histOf ?h1 l)))
      = (\<lambda>l. case map_of (e # hbl) l of None \<Rightarrow> h l
              | Some lm' \<Rightarrow> Some (pushSample (sampleOf now lm') (histOf h l)))"
  proof (rule ext)
    fix l
    show "(case map_of hbl l of None \<Rightarrow> ?h1 l
              | Some lm' \<Rightarrow> Some (pushSample (sampleOf now lm') (histOf ?h1 l)))
      = (case map_of (e # hbl) l of None \<Rightarrow> h l
              | Some lm' \<Rightarrow> Some (pushSample (sampleOf now lm') (histOf h l)))"
    proof (cases "map_of hbl l")
      case None
      then show ?thesis by (simp add: e)
    next
      case (Some lm')
      from other [OF Some] have o: "histOf ?h1 l = histOf h l" .
      from Some have "l \<in> fst ` set hbl" by (metis map_of_SomeD image_eqI fst_conv)
      with fresh have "l \<noteq> label" by auto
      with Some o show ?thesis by (simp add: e)
    qed
  qed
  have "updateHistories now (e # hbl) h = updateHistories now hbl ?h1"
    by (rule step)
  also have "\<dots> = (\<lambda>l. case map_of hbl l of None \<Rightarrow> ?h1 l
              | Some lm' \<Rightarrow> Some (pushSample (sampleOf now lm') (histOf ?h1 l)), None)"
    by (rule Cons.IH [OF d rest])
  also have "\<dots> = (\<lambda>l. case map_of (e # hbl) l of None \<Rightarrow> h l
              | Some lm' \<Rightarrow> Some (pushSample (sampleOf now lm') (histOf h l)), None)"
    by (simp only: eq)
  finally show ?case .
qed

lemma update_entries:
  assumes "(l, v') \<in> set (AList.update k v al)"
  shows "(l, v') = (k, v) \<or> (l, v') \<in> set al"
  using assms by (induction al) (auto split: if_splits)

lemma foldl_update_inv:
  assumes "distinct (map fst acc)" and "\<forall>(l, lm) \<in> set acc. P lm" and "\<forall>x \<in> set xs. P (val x)"
  shows "distinct (map fst (foldl (\<lambda>acc x. AList.update (key x) (val x) acc) acc xs))
       \<and> (\<forall>(l, lm) \<in> set (foldl (\<lambda>acc x. AList.update (key x) (val x) acc) acc xs). P lm)"
  using assms
proof (induction xs arbitrary: acc)
  case Nil
  then show ?case by simp
next
  case (Cons x xs)
  have d: "distinct (map fst (AList.update (key x) (val x) acc))"
    using Cons.prems(1) by (rule distinct_update)
  have p: "\<forall>(l, lm) \<in> set (AList.update (key x) (val x) acc). P lm"
    using Cons.prems(2,3) by (auto dest: update_entries)
  from Cons.IH [OF d p] Cons.prems(3) show ?case by simp
qed

lemma handsByLabelOf_inv:
  assumes "list_all (\<lambda>lm. length lm = 21) lms"
  shows "distinct (map fst (handsByLabelOf lms hds))
       \<and> (\<forall>(l, lm) \<in> set (handsByLabelOf lms hds). length lm = 21)"
proof -
  have a: "\<forall>x \<in> set (zip lms [0..<length lms]). length (fst x) = 21"
    using assms by (auto simp: list_all_iff dest: set_zip_leftD)
  have b: "\<forall>x \<in> set (zip hs [0..<length hs]). length (lms ! snd x) = 21"
    if "length lms = length hs" for hs :: "Handedness list"
    using assms that by (auto simp: list_all_iff dest!: set_zip_rightD)
  have byIndex: "distinct (map fst (foldl (\<lambda>acc x. AList.update (''Hand'' @ showNat (snd x)) (fst x) acc) []
                                      (zip lms [0..<length lms])))
       \<and> (\<forall>(l, lm) \<in> set (foldl (\<lambda>acc x. AList.update (''Hand'' @ showNat (snd x)) (fst x) acc) []
                                      (zip lms [0..<length lms])). length lm = 21)"
    by (rule foldl_update_inv) (use a in simp_all)
  show ?thesis
  proof (cases hds)
    case None
    with byIndex show ?thesis
      by (simp add: handsByLabelOf_def case_prod_unfold)
  next
    case (Some hs)
    show ?thesis
    proof (cases "length lms = length hs")
      case True
      have "distinct (map fst (foldl (\<lambda>acc x. AList.update (handLabel (fst x) (snd x)) (lms ! snd x) acc) []
                                      (zip hs [0..<length hs])))
       \<and> (\<forall>(l, lm) \<in> set (foldl (\<lambda>acc x. AList.update (handLabel (fst x) (snd x)) (lms ! snd x) acc) []
                                      (zip hs [0..<length hs])). length lm = 21)"
        by (rule foldl_update_inv) (use b [OF True] in simp_all)
      with Some True show ?thesis
        by (simp add: handsByLabelOf_def case_prod_unfold)
    next
      case False
      with Some byIndex show ?thesis
        by (simp add: handsByLabelOf_def case_prod_unfold)
    qed
  qed
qed

lemma debounce_history: "historyRef (debounce c now cand s) = historyRef s"
  by (cases cand) (simp_all add: debounce_def)

lemma advance_history: "historyRef (advance c t s) = historyRef s"
proof (induction c t s rule: advance.induct)
  case (1 c t s)
  show ?case
  proof (cases "resetFirst s")
    case True
    with "1.IH"(1) show ?thesis
      by (subst advance.simps) (simp add: fireReset_def)
  next
    case False
    show ?thesis
    proof (cases "gestureTimeoutRef s")
      case None
      with False show ?thesis by (subst advance.simps) simp
    next
      case (Some dg)
      obtain d g where dg: "dg = (d, g)" by (cases dg)
      from "1.IH"(2) [OF False Some dg [symmetric]] False Some dg show ?thesis
        by (subst advance.simps) (simp add: fireStability_def)
    qed
  qed
qed

lemma processResults_history:
  "historyRef (fst (processResults c now results s)) =
     (case multiHandLandmarks results of
        None \<Rightarrow> historyRef s
      | Some lms \<Rightarrow>
          if lms = [] then historyRef s
          else fst (updateHistories now (handsByLabelOf lms (multiHandedness results)) (historyRef s)))"
  by (simp add: processResults_def Let_def debounce_history split: option.splits sum.splits)

lemma onResults_bounded:
  assumes "\<forall>l. length (histOf (historyRef s) l) \<le> 30"
  shows "\<forall>l. length (histOf (historyRef (onResults c now results s)) l) \<le> 30"
proof -
  have "\<forall>l. length (histOf (historyRef (advance c now s)) l) \<le> 30"
    using assms by (simp add: advance_history)
  then show ?thesis
    using updateHistories_bounded
    by (simp add: onResults_def processResults_history split: option.splits)
qed

lemma onResultsAll_bounded:
  assumes "\<forall>l. length (histOf (historyRef s) l) \<le> 30"
  shows "\<forall>l. length (histOf (historyRef (onResultsAll c frames s)) l) \<le> 30"
  using assms
proof (induction frames arbitrary: s)
  case Nil
  then show ?case by simp
next
  case (Cons f frames)
  obtain now results where f: "f = (now, results)" by (cases f)
  from Cons.IH [OF onResults_bounded [OF Cons.prems]] show ?case
    by (simp add: f)
qed

lemma onResults_history_exact:
  assumes "multiHandLandmarks results = Some lms" and "lms \<noteq> []"
    and "list_all (\<lambda>lm. length lm = 21) lms"
  shows "histOf (historyRef (onResults c now results s)) label =
           (case map_of (handsByLabelOf lms (multiHandedness results)) label of
              None \<Rightarrow> histOf (historyRef s) label
            | Some lm \<Rightarrow> pushSample (sampleOf now lm) (histOf (historyRef s) label))"
proof -
  let ?hbl = "handsByLabelOf lms (multiHandedness results)"
  from handsByLabelOf_inv [OF assms(3), of "multiHandedness results"]
  have d: "distinct (map fst ?hbl)" and l: "\<forall>(l, lm) \<in> set ?hbl. 17 < length lm"
    by fastforce+
  have "historyRef (onResults c now results s) = fst (updateHistories now ?hbl (historyRef s))"
    using assms(1,2) by (simp add: onResults_def processResults_history advance_history)
  then show ?thesis
    by (simp add: updateHistories_exact [OF d l] histOf_def split: option.splits)
qed

text \<open>
  Claim C9. After every sequence of frames, the history of every label holds at most 30
  samples (also when a frame's processing ends in an exception). A frame whose hands all
  have 21 landmarks appends exactly one sample \<open>(now, wrist, palmCenter)\<close> to the history
  of each label it reports, dropping the oldest sample when 30 are already there, and
  leaves the histories of all other labels as they were.
\<close>

theorem history_ring_buffer:
  "(\<forall>label. length (histOf (historyRef (onResultsAll c frames (initEngine audio))) label) \<le> 30)
   \<and> (multiHandLandmarks results = Some lms \<and> lms \<noteq> [] \<and> list_all (\<lambda>lm. length lm = 21) lms
        \<longrightarrow>
        histOf (historyRef (onResults c now results s)) label =
          (case map_of (handsByLabelOf lms (multiHandedness results)) label of
             None \<Rightarrow> histOf (historyRef s) label
           | Some lm \<Rightarrow>
               (let h = histOf (historyRef s) label
                in if length h < 30 then h @ [sampleOf now lm] else tl h @ [sampleOf now lm])))"
proof -
  have "\<forall>l. length (histOf (historyRef (initEngine audio)) l) \<le> 30"
    by (simp add: initEngine_def histOf_def)
  from onResultsAll_bounded [OF this]
  have bounded: "\<forall>label. length (histOf (historyRef (onResultsAll c frames (initEngine audio))) label) \<le> 30" .
  have exact: "histOf (historyRef (onResults c now results s)) label =
          (case map_of (handsByLabelOf lms (multiHandedness results)) label of
             None \<Rightarrow> histOf (historyRef s) label
           | Some lm \<Rightarrow>
               (let h = histOf (historyRef s) label
                in if length h < 30 then h @ [sampleOf now lm] else tl h @ [sampleOf now lm]))"
    if "multiHandLandmarks results = Some lms" "lms \<noteq> []" "list_all (\<lambda>lm. length lm = 21) lms"
    using onResults_history_exact [OF that]
    by (simp add: pushSample_eq Let_def split: option.splits)
  from bounded exact show ?thesis by blast
qed

lemma oneHandFrame_hands:
  "multiHandLandmarks oneHandFrame = Some [centreHand]"
  "handsByLabelOf [centreHand] (multiHandedness oneHandFrame) = [(''Right'', centreHand)]"
  "length centreHand = 21"
  by (simp_all add: oneHandFrame_def handsByLabelOf_def handLabel_def centreHand_def handAt_length)

lemma fullEngine_history:
  "histOf (historyRef fullEngine) ''Right'' = replicate 30 oldSample"
  "histOf (historyRef fullEngine) ''Left'' = []"
  "histOf (historyRef (initEngine False)) ''Right'' = []"
  by (simp_all add: fullEngine_def initEngine_def histOf_def)

theorem history_ring_buffer_witness:
  "multiHandLandmarks oneHandFrame = Some [centreHand] \<and> [centreHand] \<noteq> []
   \<and> list_all (\<lambda>lm. length lm = 21) [centreHand]
   \<and> histOf (historyRef (onResults useHandDetection_config 33 oneHandFrame fullEngine)) ''Right''
        = replicate 29 oldSample @ [sampleOf 33 centreHand]
   \<and> histOf (historyRef (onResults useHandDetection_config 33 oneHandFrame fullEngine)) ''Left'' = []
   \<and> histOf (historyRef (onResults useHandDetection_config 0 oneHandFrame (initEngine False))) ''Right''
        = [sampleOf 0 centreHand]"
proof -
  have tl30: "tl (replicate 30 oldSample) = replicate 29 oldSample"
    by simp
  show ?thesis
    using history_ring_buffer [where results = oneHandFrame and lms = "[centreHand]"
        and c = useHandDetection_config and now = 33 and s = fullEngine and label = "''Right''"]
      history_ring_buffer [where results = oneHandFrame and lms = "[centreHand]"
        and c = useHandDetection_config and now = 33 and s = fullEngine and label = "''Left''"]
      history_ring_buffer [where results = oneHandFrame and lms = "[centreHand]"
        and c = useHandDetection_config and now = 0 and s = "initEngine False" and label = "''Right''"]
    by (simp add: oneHandFrame_hands fullEngine_history tl30)
qed

section \<open>The stability window\<close>

lemma advance_idle:
  assumes "case resetTimers s of [] \<Rightarrow> True | r # _ \<Rightarrow> t < r"
    and "case gestureTimeoutRef s of None \<Rightarrow> True | Some (d, g) \<Rightarrow> t < d"
  shows "advance c t s = s"
  using assms
  by (subst advance.simps) (auto simp: resetFirst_def split: option.splits list.splits)

lemma feed_held:
  assumes "allLabelled L frames" and "L \<noteq> []"
    and "closelySpaced (stabilityMs c) (map fst frames)"
    and "emitted s = []" and "resetTimers s = []" and "lastGestureRef s = []"
    and "case gestureTimeoutRef s of
           None \<Rightarrow> True
         | Some (d, g) \<Rightarrow> (case frames of [] \<Rightarrow> True | f # _ \<Rightarrow> fst f < d)"
  shows "emitted (feed c frames s) = [] \<and> resetTimers (feed c frames s) = []
       \<and> lastGestureRef (feed c frames s) = []
       \<and> (frames \<noteq> [] \<longrightarrow>
            (\<exists>g. gestureTimeoutRef (feed c frames s) = Some (fst (last frames) + stabilityMs c, g)))"
  using assms
proof (induction frames arbitrary: s)
  case Nil
  then show ?case by simp
next
  case (Cons f frames)
  obtain t cand where f: "f = (t, cand)" by (cases f)
  from Cons.prems(1) f obtain g where cand: "cand = Some g" and g: "gesture g = L"
    by (auto simp: allLabelled_def split: option.splits)
  have idle: "advance c t s = s"
    using Cons.prems(5,7) f by (intro advance_idle) (auto split: option.splits)
  let ?s1 = "s\<lparr>gestureTimeoutRef := Some (t + stabilityMs c, g)\<rparr>"
  have s1: "debounce c t cand (advance c t s) = ?s1"
    using g Cons.prems(2,6) by (simp add: idle debounce_def cand)
  have step: "feed c (f # frames) s = feed c frames ?s1"
    by (simp add: f s1)
  have rest_l: "allLabelled L frames"
    using Cons.prems(1) by (simp add: allLabelled_def)
  have rest_c: "closelySpaced (stabilityMs c) (map fst frames)"
    using Cons.prems(3) by (cases frames) (simp_all add: closelySpaced_def)
  have next_due: "case gestureTimeoutRef ?s1 of
           None \<Rightarrow> True
         | Some (d, g) \<Rightarrow> (case frames of [] \<Rightarrow> True | f' # _ \<Rightarrow> fst f' < d)"
    using Cons.prems(3) f by (cases frames) (simp_all add: closelySpaced_def)
  have ih: "emitted (feed c frames ?s1) = [] \<and> resetTimers (feed c frames ?s1) = []
       \<and> lastGestureRef (feed c frames ?s1) = []
       \<and> (frames \<noteq> [] \<longrightarrow>
            (\<exists>g. gestureTimeoutRef (feed c frames ?s1) = Some (fst (last frames) + stabilityMs c, g)))"
    using Cons.prems(4,5,6) by (intro Cons.IH [OF rest_l Cons.prems(2) rest_c _ _ _ next_due]) simp_all
  show ?case
  proof (cases "frames = []")
    case True
    then show ?thesis
      using Cons.prems(4,5,6) by (simp add: f s1)
  next
    case False
    with ih show ?thesis
      unfolding step by simp
  qed
qed

text \<open>
  Claim C1 (the code departs from it). The claim says that a label produced on every
  frame for at least the stability window is emitted at the end of the window. In the
  code every frame whose candidate differs from \<^verbatim>\<open>lastGestureRef.current\<close> clears the
  stability timer and sets it again, also when the candidate is the one already pending.
  So while frames with the same label keep arriving less than one window apart, nothing
  is emitted, however long the gesture is held: the event comes one window after the
  last such frame.
\<close>

theorem held_gesture_not_emitted:
  assumes "allLabelled L frames" and "L \<noteq> []" and "frames \<noteq> []"
    and "closelySpaced (stabilityMs c) (map fst frames)"
    and "t < fst (last frames) + stabilityMs c"
  shows "emitted (advance c t (feed c frames (initEngine audio))) = []"
proof -
  let ?s = "feed c frames (initEngine audio)"
  have "emitted ?s = [] \<and> resetTimers ?s = [] \<and> lastGestureRef ?s = []
       \<and> (frames \<noteq> [] \<longrightarrow> (\<exists>g. gestureTimeoutRef ?s = Some (fst (last frames) + stabilityMs c, g)))"
    by (rule feed_held [OF assms(1,2,4)]) (simp_all add: initEngine_def)
  with assms(3) obtain g where e: "emitted ?s = []" and r: "resetTimers ?s = []"
    and p: "gestureTimeoutRef ?s = Some (fst (last frames) + stabilityMs c, g)"
    by auto
  have "advance c t ?s = ?s"
    using r p assms(5) by (intro advance_idle) simp_all
  with e show ?thesis by simp
qed

lemma heldFist_facts:
  "allLabelled ''Fist'' heldFist" "heldFist \<noteq> []" "fst (last heldFist) = 250"
  "closelySpaced 150 (map fst heldFist)" "closelySpaced 200 (map fst heldFist)"
  by (simp_all add: heldFist_def allLabelled_def closelySpaced_def candidate_def)

text \<open>
  A fist seen every 50 ms from 0 to 250 ms: nothing has been emitted by 399 ms, with the
  delays of either revision of the hook.
\<close>

theorem held_gesture_not_emitted_witness:
  "allLabelled ''Fist'' heldFist \<and> ''Fist'' \<noteq> [] \<and> heldFist \<noteq> []
   \<and> closelySpaced (stabilityMs useHandDetection_config) (map fst heldFist)
   \<and> 399 < fst (last heldFist) + stabilityMs useHandDetection_config
   \<and> emitted (advance useHandDetection_config 399 (feed useHandDetection_config heldFist (initEngine False))) = []
   \<and> closelySpaced (stabilityMs part001_config) (map fst heldFist)
   \<and> emitted (advance part001_config 399 (feed part001_config heldFist (initEngine False))) = []"
  using held_gesture_not_emitted [of "''Fist''" heldFist useHandDetection_config 399 False]
    held_gesture_not_emitted [of "''Fist''" heldFist part001_config 399 False]
  by (simp add: heldFist_facts useHandDetection_config_def part001_config_def)

section \<open>Evaluating the timers on explicit states\<close>

lemma engineWith_init: "initEngine False = engineWith [] None [] []"
  by (simp add: initEngine_def engineWith_def)

lemma engineWith_emitted: "emitted (engineWith l p rs e) = e"
  by (simp add: engineWith_def)

lemma debounce_engineWith:
  "debounce c now (Some g) (engineWith l p rs e) =
     (if gesture g \<noteq> l then engineWith l (Some (now + stabilityMs c, g)) rs e else engineWith l p rs e)"
  "debounce c now None (engineWith l p rs e) = engineWith l p rs e"
  by (simp_all add: debounce_def engineWith_def)

lemma advance_engineWith_idle:
  "advance c t (engineWith l None [] e) = engineWith l None [] e"
  "t < r \<Longrightarrow> advance c t (engineWith l None (r # rs) e) = engineWith l None (r # rs) e"
  "t < d \<Longrightarrow> advance c t (engineWith l (Some (d, g)) [] e) = engineWith l (Some (d, g)) [] e"
  "t < r \<Longrightarrow> t < d \<Longrightarrow>
     advance c t (engineWith l (Some (d, g)) (r # rs) e) = engineWith l (Some (d, g)) (r # rs) e"
  by (subst advance.simps, simp add: resetFirst_def engineWith_def)+

lemma advance_engineWith_reset:
  "r \<le> t \<Longrightarrow> advance c t (engineWith l None (r # rs) e) = advance c t (engineWith [] None rs e)"
  "r \<le> d \<Longrightarrow> r \<le> t \<Longrightarrow>
     advance c t (engineWith l (Some (d, g)) (r # rs) e) = advance c t (engineWith [] (Some (d, g)) rs e)"
  by (subst advance.simps, simp add: resetFirst_def fireReset_def engineWith_def)+

lemma advance_engineWith_stability:
  "d \<le> t \<Longrightarrow>
     advance c t (engineWith l (Some (d, g)) [] e)
       = advance c t (engineWith (gesture g) None [d + cooldownMs c] (e @ [(d, g)]))"
  "d < r \<Longrightarrow> d \<le> t \<Longrightarrow>
     advance c t (engineWith l (Some (d, g)) (r # rs) e)
       = advance c t (engineWith (gesture g) None ((r # rs) @ [d + cooldownMs c]) (e @ [(d, g)]))"
  by (subst advance.simps, simp add: resetFirst_def fireStability_def engineWith_def)+

lemmas engine_eval =
  engineWith_init engineWith_emitted debounce_engineWith advance_engineWith_idle
  advance_engineWith_reset advance_engineWith_stability

section \<open>Cooldown\<close>

text \<open>
  Claim C2 (the code departs from it). The claim says that after an event with label L,
  further frames with candidate L inside the cooldown window produce no further event.
  The inner timer that empties \<^verbatim>\<open>lastGestureRef.current\<close> is never cleared, so the one
  left by an earlier emission of another label ends the cooldown of L early. Here an
  open palm is emitted at 150 ms and its reset is due at 1950 ms; the fist is emitted at
  1900 ms, the frames at 1910 and 1930 ms are suppressed, the reset at 1950 ms empties
  the ref, the frame at 1960 ms sets the timer again, and the fist is emitted a second
  time at 2110 ms, 210 ms after the first time.
\<close>

theorem stale_reset_reemits:
  "emitted (advance useHandDetection_config 2110
             (feed useHandDetection_config palmThenFist (initEngine False)))
     = [(150, candidate ''Open Palm'' 0), (1900, candidate ''Fist'' 1750), (2110, candidate ''Fist'' 1960)]"
  by (simp add: palmThenFist_def useHandDetection_config_def candidate_def engine_eval)

text \<open>
  Three more facts about the debounce block. A candidate seen on a single frame is
  emitted one window later, although the next frame no longer shows it. With a single
  reset timer pending, frames with the emitted label before that timer is due change
  nothing. After the reset the same label is emitted again.
\<close>

lemma flicker_is_emitted:
  assumes "gesture g \<noteq> []" and "1 < stabilityMs c" and "0 < cooldownMs c"
  shows "emitted (advance c (t + stabilityMs c) (feed c [(t, Some g), (t + 1, None)] (initEngine False)))
           = [(t + stabilityMs c, g)]"
  using assms by (simp add: engine_eval)

lemma cooldown_suppresses:
  assumes "lastGestureRef s = L" and "gestureTimeoutRef s = None" and "resetTimers s = [r]"
    and "allLabelled L frames" and "list_all (\<lambda>f. fst f < r) frames"
  shows "feed c frames s = s"
  using assms(4,5)
proof (induction frames)
  case Nil
  then show ?case by simp
next
  case (Cons f frames)
  obtain t cand where f: "f = (t, cand)" by (cases f)
  from Cons.prems(1) f obtain g where cand: "cand = Some g" and g: "gesture g = L"
    by (auto simp: allLabelled_def split: option.splits)
  have "advance c t s = s"
    using assms(2,3) Cons.prems(2) f by (intro advance_idle) simp_all
  then have "debounce c t cand (advance c t s) = s"
    using assms(1) g by (simp add: debounce_def cand)
  with Cons show ?case
    by (simp add: f allLabelled_def)
qed

lemma reemitted_after_cooldown:
  "emitted (advance useHandDetection_config 2150
             (feed useHandDetection_config
                [(0, Some (candidate ''Fist'' 0)), (2000, Some (candidate ''Fist'' 2000))] (initEngine False)))
     = [(150, candidate ''Fist'' 0), (2150, candidate ''Fist'' 2000)]"
  by (simp add: useHandDetection_config_def candidate_def engine_eval)

end
